theory Spec2Isabelle
  imports Complex_Main
begin

section \<open>JavaScript values\<close>

text \<open>
  A request body is the object parsed from JSON by the framework; the handlers read its
  properties and test them for truthiness. \<open>JDate v\<close> is the object \<open>new Date(v)\<close>,
  which only the booking handlers construct. A value of type \<open>js\<close> is a JavaScript value
  that may be \<open>undefined\<close> (\<open>None\<close>); an object maps a property name to its value and
  gives \<open>undefined\<close> for a property it does not have.
\<close>

datatype jsval =
    JNull
  | JBool bool
  | JNum rat
  | JStr string
  | JArr "jsval list"
  | JObj "(string \<times> jsval) list"
  | JDate "jsval option"

type_synonym js = "jsval option"

type_synonym obj = "string \<Rightarrow> js"

text \<open>\<open>!v\<close> is true for undefined, null, false, 0 and the empty string.\<close>

fun truthy :: "js \<Rightarrow> bool" where
  "truthy None = False"
| "truthy (Some JNull) = False"
| "truthy (Some (JBool b)) = b"
| "truthy (Some (JNum n)) = (n \<noteq> 0)"
| "truthy (Some (JStr s)) = (s \<noteq> [])"
| "truthy (Some (JArr xs)) = True"
| "truthy (Some (JObj kvs)) = True"
| "truthy (Some (JDate v)) = True"

text \<open>\<open>v !== s\<close> for a string \<open>s\<close>: strict inequality, no conversion.\<close>

definition strict_neq :: "js \<Rightarrow> string \<Rightarrow> bool" where
  "strict_neq v s = (v \<noteq> Some (JStr s))"

text \<open>\<open>s.split(sep)\<close> for a one-character separator: every occurrence cuts, and empty
  pieces are kept.\<close>

fun split :: "char \<Rightarrow> string \<Rightarrow> string list" where
  "split sep [] = [[]]"
| "split sep (c # cs) =
     (if c = sep then [] # split sep cs
      else (case split sep cs of [] \<Rightarrow> [[c]] | w # ws \<Rightarrow> (c # w) # ws))"

text \<open>\<open>xs[i]\<close>: undefined out of range.\<close>

definition index :: "'a list \<Rightarrow> nat \<Rightarrow> 'a option" where
  "index xs i = (if i < length xs then Some (xs ! i) else None)"

section \<open>The rows of prisma/schema.prisma\<close>

type_synonym datetime = js

record userWithoutPassword =
  user_id :: string
  user_username :: string
  user_name :: string
  user_email :: string
  user_phoneNumber :: string
  user_profilePicture :: "string option"

record user = userWithoutPassword +
  user_password :: string

record host =
  host_id :: string
  host_username :: string
  host_name :: string
  host_email :: string
  host_phoneNumber :: string
  host_profilePicture :: "string option"
  host_aboutMe :: "string option"

record property =
  property_id :: string
  property_title :: string
  property_description :: string
  property_location :: string
  property_pricePerNight :: rat
  property_bedroomCount :: int
  property_bathroomCount :: int
  property_maxGuestCount :: int
  property_rating :: rat
  property_hostId :: string

record booking =
  booking_id :: string
  booking_startDate :: datetime
  booking_endDate :: datetime
  booking_propertyId :: string
  booking_userId :: string

record review =
  review_id :: string
  review_rating :: rat
  review_comment :: "string option"
  review_propertyId :: string
  review_userId :: string

section \<open>The Prisma client\<close>

text \<open>
  The handlers reach the data store through the Prisma client, a library that is not part
  of the repository. It is a parameter of every handler: a record of operations over a
  store state \<open>'st\<close>, each of which returns the new state and either the error it throws
  (\<open>Inl\<close>) or its result. The handlers look at one thing in a thrown error, its
  \<open>code\<close>.
\<close>

datatype error = Error (code: "string option")

datatype where_unique = ById js | ByUsername js

record 'st prisma =
  user_findUnique :: "where_unique \<Rightarrow> 'st \<Rightarrow> (error + user option) \<times> 'st"
  user_update :: "string \<Rightarrow> obj \<Rightarrow> 'st \<Rightarrow> (error + user) \<times> 'st"
  user_delete :: "string \<Rightarrow> 'st \<Rightarrow> (error + user) \<times> 'st"
  host_findUnique :: "js \<Rightarrow> 'st \<Rightarrow> (error + host option) \<times> 'st"
  property_findUnique :: "js \<Rightarrow> 'st \<Rightarrow> (error + property option) \<times> 'st"
  property_create :: "obj \<Rightarrow> 'st \<Rightarrow> (error + property) \<times> 'st"
  property_update :: "string \<Rightarrow> obj \<Rightarrow> 'st \<Rightarrow> (error + property) \<times> 'st"
  property_delete :: "string \<Rightarrow> 'st \<Rightarrow> (error + property) \<times> 'st"
  review_findUnique :: "js \<Rightarrow> 'st \<Rightarrow> (error + review option) \<times> 'st"
  review_create :: "obj \<Rightarrow> 'st \<Rightarrow> (error + review) \<times> 'st"
  review_update :: "string \<Rightarrow> obj \<Rightarrow> 'st \<Rightarrow> (error + review) \<times> 'st"
  review_delete :: "string \<Rightarrow> 'st \<Rightarrow> (error + review) \<times> 'st"
  booking_findUnique :: "js \<Rightarrow> 'st \<Rightarrow> (error + booking option) \<times> 'st"
  booking_create :: "obj \<Rightarrow> 'st \<Rightarrow> (error + booking) \<times> 'st"
  booking_update :: "string \<Rightarrow> obj \<Rightarrow> 'st \<Rightarrow> (error + booking) \<times> 'st"
  booking_delete :: "string \<Rightarrow> 'st \<Rightarrow> (error + booking) \<times> 'st"

text \<open>
  What a request does to the store is observed through the list of the calls it made, in
  order; \<open>invoke\<close> runs one operation and appends its call.
\<close>

datatype model = User | Host | Property | Booking | Review

datatype store_call =
    FindUnique model where_unique
  | Create model obj
  | Update model string obj
  | Delete model string

type_synonym 'st world = "store_call list \<times> 'st"

definition invoke :: "store_call \<Rightarrow> ('st \<Rightarrow> 'r \<times> 'st) \<Rightarrow> 'st world \<Rightarrow> 'r \<times> 'st world" where
  "invoke c operation w =
     (case operation (snd w) of (r, s') \<Rightarrow> (r, (fst w @ [c], s')))"

section \<open>Responses\<close>

text \<open>\<open>res.status(n).json(b)\<close>: the body is \<open>{message: m}\<close> or an entity.\<close>

datatype 'a body = Message string | Entity 'a

datatype 'a response = Response (status: nat) (body: "'a body")

abbreviation server_error :: "'a response" where
  "server_error \<equiv> Response 500 (Message ''Server error'')"

section \<open>middleware/auth.js\<close>

text \<open>
  \<open>jwt.verify\<close> belongs to a library outside the repository: \<open>verify\<close> is a
  parameter, \<open>None\<close> where the library throws. The middleware either responds itself or
  calls \<open>next()\<close> with the decoded payload in \<open>req.user\<close>.
\<close>

datatype auth = Respond nat string | Next obj

definition bearer :: "string option \<Rightarrow> string option" where
  "bearer authorization =
     (case authorization of None \<Rightarrow> None | Some h \<Rightarrow> index (split CHR '' '' h) 1)"

definition verifyToken :: "(string \<Rightarrow> obj option) \<Rightarrow> string option \<Rightarrow> auth" where
  "verifyToken verify authorization =
     (case bearer authorization of
        None \<Rightarrow> Respond 401 ''No token provided, authorization denied''
      | Some token \<Rightarrow>
          if token = [] then Respond 401 ''No token provided, authorization denied''
          else
            (case verify token of
               Some decoded \<Rightarrow> Next decoded
             | None \<Rightarrow> Respond 401 ''Invalid or expired token''))"

text \<open>A route declared as \<open>router.METHOD(path, verifyToken, handler)\<close>.\<close>

definition protected ::
  "(string \<Rightarrow> obj option) \<Rightarrow> string option \<Rightarrow> (obj \<Rightarrow> 'w \<Rightarrow> 'a response \<times> 'w) \<Rightarrow>
   'w \<Rightarrow> 'a response \<times> 'w" where
  "protected verify authorization handler w =
     (case verifyToken verify authorization of
        Respond st m \<Rightarrow> (Response st (Message m), w)
      | Next req_user \<Rightarrow> handler req_user w)"

section \<open>routes/login.js\<close>

text \<open>
  The login router is the source file src/unnamed/part_000, which names itself
  routes/login.js. It calls
  \<open>jwt.sign({userId, username}, process.env.JWT_SECRET, {expiresIn: "7h"})\<close>.
  \<open>jwt.sign\<close> belongs to the same library as \<open>jwt.verify\<close>: \<open>sign\<close> is a parameter
  that takes the three arguments of the call, \<open>None\<close> where the library throws, which
  the handler's \<open>catch\<close> answers with 500. \<open>JWT_SECRET\<close> is the value of the environment
  variable, \<open>None\<close> when it is not set.
\<close>

record login_payload =
  payload_userId :: string
  payload_username :: string

record sign_options =
  expiresIn :: string

definition login_post ::
  "'st prisma \<Rightarrow> (login_payload \<Rightarrow> string option \<Rightarrow> sign_options \<Rightarrow> 'tok option) \<Rightarrow>
   string option \<Rightarrow> obj \<Rightarrow> 'st world \<Rightarrow> 'tok response \<times> 'st world" where
  "login_post prisma sign JWT_SECRET req_body w =
     (let username = req_body ''username''; password = req_body ''password'' in
      if \<not> truthy username \<or> \<not> truthy password then
        (Response 400 (Message ''Username and password are required''), w)
      else
        (case invoke (FindUnique User (ByUsername username))
                (user_findUnique prisma (ByUsername username)) w of
           (Inl err, w1) \<Rightarrow> (server_error, w1)
         | (Inr None, w1) \<Rightarrow> (Response 401 (Message ''Invalid credentials''), w1)
         | (Inr (Some user), w1) \<Rightarrow>
             if strict_neq password (user_password user) then
               (Response 401 (Message ''Invalid credentials''), w1)
             else
               (case sign \<lparr>payload_userId = user_id user,
                            payload_username = user_username user\<rparr>
                       JWT_SECRET \<lparr>expiresIn = ''7h''\<rparr> of
                  None \<Rightarrow> (server_error, w1)
                | Some token \<Rightarrow> (Response 200 (Entity token), w1))))"

section \<open>routes/users.js\<close>

definition users_put ::
  "'st prisma \<Rightarrow> obj \<Rightarrow> string \<Rightarrow> obj \<Rightarrow> 'st world \<Rightarrow>
   userWithoutPassword response \<times> 'st world" where
  "users_put prisma req_user id' req_body w =
     (let username = req_body ''username''; email = req_body ''email'';
          password = req_body ''password'' in
      if \<not> truthy username \<and> \<not> truthy email \<and> \<not> truthy password then
        (Response 400
           (Message ''At least one field is required (username, email, or password)''), w)
      else if strict_neq (req_user ''id'') id' then
        (Response 403 (Message ''You can only update your own account''), w)
      else
        (case invoke (FindUnique User (ById (Some (JStr id'))))
                (user_findUnique prisma (ById (Some (JStr id')))) w of
           (Inl err, w1) \<Rightarrow> (server_error, w1)
         | (Inr None, w1) \<Rightarrow> (Response 404 (Message ''User not found''), w1)
         | (Inr (Some user), w1) \<Rightarrow>
             (let updatedData = (\<lambda>k. None);
                  updatedData =
                    (if truthy username then updatedData(''username'' := username)
                     else updatedData);
                  updatedData =
                    (if truthy email then updatedData(''email'' := email) else updatedData);
                  updatedData =
                    (if truthy password then updatedData(''password'' := password)
                     else updatedData)
              in
                case invoke (Update User id' updatedData)
                       (user_update prisma id' updatedData) w1 of
                  (Inl err, w2) \<Rightarrow> (server_error, w2)
                | (Inr updatedUser, w2) \<Rightarrow>
                    (Response 200 (Entity (userWithoutPassword.truncate updatedUser)), w2))))"

definition users_delete ::
  "'st prisma \<Rightarrow> obj \<Rightarrow> string \<Rightarrow> 'st world \<Rightarrow> unit response \<times> 'st world" where
  "users_delete prisma req_user id' w =
     (if strict_neq (req_user ''id'') id' then
        (Response 403 (Message ''You can only delete your own account''), w)
      else
        (case invoke (Delete User id') (user_delete prisma id') w of
           (Inr deletedUser, w1) \<Rightarrow>
             (Response 200
                (Message (''User '' @ user_username deletedUser @ '' deleted successfully'')),
              w1)
         | (Inl err, w1) \<Rightarrow>
             if code err = Some ''P2025'' then
               (Response 404 (Message ''User not found''), w1)
             else (server_error, w1)))"

section \<open>routes/reviews.js\<close>

definition reviews_post ::
  "'st prisma \<Rightarrow> obj \<Rightarrow> 'st world \<Rightarrow> review response \<times> 'st world" where
  "reviews_post prisma req_body w =
     (let rating = req_body ''rating''; comment = req_body ''comment'';
          userId = req_body ''userId''; propertyId = req_body ''propertyId'' in
      if \<not> truthy rating \<or> \<not> truthy comment \<or> \<not> truthy userId \<or> \<not> truthy propertyId then
        (Response 400
           (Message ''Rating, comment, user ID, and property ID are required''), w)
      else
        (case invoke (FindUnique User (ById userId))
                (user_findUnique prisma (ById userId)) w of
           (Inl err, w1) \<Rightarrow> (server_error, w1)
         | (Inr None, w1) \<Rightarrow> (Response 404 (Message ''User not found''), w1)
         | (Inr (Some userExists), w1) \<Rightarrow>
             (case invoke (FindUnique Property (ById propertyId))
                     (property_findUnique prisma propertyId) w1 of
                (Inl err, w2) \<Rightarrow> (server_error, w2)
              | (Inr None, w2) \<Rightarrow> (Response 404 (Message ''Property not found''), w2)
              | (Inr (Some propertyExists), w2) \<Rightarrow>
                  (let data = (\<lambda>k. None)
                         (''rating'' := rating, ''comment'' := comment,
                          ''userId'' := userId, ''propertyId'' := propertyId)
                   in
                     case invoke (Create Review data) (review_create prisma data) w2 of
                       (Inl err, w3) \<Rightarrow> (server_error, w3)
                     | (Inr newReview, w3) \<Rightarrow> (Response 201 (Entity newReview), w3)))))"

definition reviews_put ::
  "'st prisma \<Rightarrow> string \<Rightarrow> obj \<Rightarrow> 'st world \<Rightarrow> review response \<times> 'st world" where
  "reviews_put prisma id' req_body w =
     (let rating = req_body ''rating''; comment = req_body ''comment'';
          userId = req_body ''userId''; propertyId = req_body ''propertyId'' in
      if \<not> truthy rating \<and> \<not> truthy comment \<and> \<not> truthy userId \<and> \<not> truthy propertyId then
        (Response 400
           (Message ''At least one field (rating, comment, userId, propertyId) is required''),
         w)
      else
        (case invoke (FindUnique Review (ById (Some (JStr id'))))
                (review_findUnique prisma (Some (JStr id'))) w of
           (Inl err, w1) \<Rightarrow> (server_error, w1)
         | (Inr None, w1) \<Rightarrow> (Response 404 (Message ''Review not found''), w1)
         | (Inr (Some review), w1) \<Rightarrow>
             (let updatedData = (\<lambda>k. None);
                  updatedData =
                    (if truthy rating then updatedData(''rating'' := rating) else updatedData);
                  updatedData =
                    (if truthy comment then updatedData(''comment'' := comment)
                     else updatedData);
                  updatedData =
                    (if truthy userId then updatedData(''userId'' := userId) else updatedData);
                  updatedData =
                    (if truthy propertyId then updatedData(''propertyId'' := propertyId)
                     else updatedData)
              in
                case invoke (Update Review id' updatedData)
                       (review_update prisma id' updatedData) w1 of
                  (Inl err, w2) \<Rightarrow> (server_error, w2)
                | (Inr updatedReview, w2) \<Rightarrow> (Response 200 (Entity updatedReview), w2))))"

definition reviews_delete ::
  "'st prisma \<Rightarrow> string \<Rightarrow> 'st world \<Rightarrow> unit response \<times> 'st world" where
  "reviews_delete prisma id' w =
     (case invoke (Delete Review id') (review_delete prisma id') w of
        (Inr deletedReview, w1) \<Rightarrow>
          (Response 200
             (Message (''Review with ID '' @ review_id deletedReview @ '' deleted successfully'')),
           w1)
      | (Inl err, w1) \<Rightarrow>
          if code err = Some ''P2025'' then
            (Response 404 (Message ''Review not found''), w1)
          else (server_error, w1))"

section \<open>routes/reviews.js, the booking router\<close>

text \<open>
  The booking routes stand in the same source file, after the review routes. A booking's
  dates are passed to the store as \<open>new Date(startDate)\<close> and \<open>new Date(endDate)\<close>.
\<close>

definition newDate :: "js \<Rightarrow> js" where
  "newDate v = Some (JDate v)"

definition bookings_post ::
  "'st prisma \<Rightarrow> obj \<Rightarrow> 'st world \<Rightarrow> booking response \<times> 'st world" where
  "bookings_post prisma req_body w =
     (let startDate = req_body ''startDate''; endDate = req_body ''endDate'';
          userId = req_body ''userId''; propertyId = req_body ''propertyId'' in
      if \<not> truthy startDate \<or> \<not> truthy endDate \<or> \<not> truthy userId \<or> \<not> truthy propertyId then
        (Response 400
           (Message ''Start date, end date, user ID, and property ID are required''), w)
      else
        (case invoke (FindUnique User (ById userId))
                (user_findUnique prisma (ById userId)) w of
           (Inl err, w1) \<Rightarrow> (server_error, w1)
         | (Inr None, w1) \<Rightarrow> (Response 404 (Message ''User not found''), w1)
         | (Inr (Some userExists), w1) \<Rightarrow>
             (case invoke (FindUnique Property (ById propertyId))
                     (property_findUnique prisma propertyId) w1 of
                (Inl err, w2) \<Rightarrow> (server_error, w2)
              | (Inr None, w2) \<Rightarrow> (Response 404 (Message ''Property not found''), w2)
              | (Inr (Some propertyExists), w2) \<Rightarrow>
                  (let data = (\<lambda>k. None)
                         (''startDate'' := newDate startDate, ''endDate'' := newDate endDate,
                          ''userId'' := userId, ''propertyId'' := propertyId)
                   in
                     case invoke (Create Booking data) (booking_create prisma data) w2 of
                       (Inl err, w3) \<Rightarrow> (server_error, w3)
                     | (Inr newBooking, w3) \<Rightarrow> (Response 201 (Entity newBooking), w3)))))"

definition bookings_put ::
  "'st prisma \<Rightarrow> string \<Rightarrow> obj \<Rightarrow> 'st world \<Rightarrow> booking response \<times> 'st world" where
  "bookings_put prisma id' req_body w =
     (let startDate = req_body ''startDate''; endDate = req_body ''endDate'';
          userId = req_body ''userId''; propertyId = req_body ''propertyId'' in
      if \<not> truthy startDate \<and> \<not> truthy endDate \<and> \<not> truthy userId \<and> \<not> truthy propertyId then
        (Response 400
           (Message
              ''At least one field (startDate, endDate, userId, propertyId) is required''),
         w)
      else
        (case invoke (FindUnique Booking (ById (Some (JStr id'))))
                (booking_findUnique prisma (Some (JStr id'))) w of
           (Inl err, w1) \<Rightarrow> (server_error, w1)
         | (Inr None, w1) \<Rightarrow> (Response 404 (Message ''Booking not found''), w1)
         | (Inr (Some booking), w1) \<Rightarrow>
             (let updatedData = (\<lambda>k. None);
                  updatedData =
                    (if truthy startDate then updatedData(''startDate'' := newDate startDate)
                     else updatedData);
                  updatedData =
                    (if truthy endDate then updatedData(''endDate'' := newDate endDate)
                     else updatedData);
                  updatedData =
                    (if truthy userId then updatedData(''userId'' := userId) else updatedData);
                  updatedData =
                    (if truthy propertyId then updatedData(''propertyId'' := propertyId)
                     else updatedData)
              in
                case invoke (Update Booking id' updatedData)
                       (booking_update prisma id' updatedData) w1 of
                  (Inl err, w2) \<Rightarrow> (server_error, w2)
                | (Inr updatedBooking, w2) \<Rightarrow> (Response 200 (Entity updatedBooking), w2))))"

definition bookings_delete ::
  "'st prisma \<Rightarrow> string \<Rightarrow> 'st world \<Rightarrow> unit response \<times> 'st world" where
  "bookings_delete prisma id' w =
     (case invoke (Delete Booking id') (booking_delete prisma id') w of
        (Inr deletedBooking, w1) \<Rightarrow>
          (Response 200
             (Message
                (''Booking with ID '' @ booking_id deletedBooking @ '' deleted successfully'')),
           w1)
      | (Inl err, w1) \<Rightarrow>
          if code err = Some ''P2025'' then
            (Response 404 (Message ''Booking not found''), w1)
          else (server_error, w1))"

section \<open>routes/properties.js\<close>


definition properties_put ::
  "'st prisma \<Rightarrow> string \<Rightarrow> obj \<Rightarrow> 'st world \<Rightarrow> property response \<times> 'st world" where
  "properties_put prisma id' req_body w =
     (let title = req_body ''title''; description = req_body ''description'';
          location = req_body ''location''; pricePerNight = req_body ''pricePerNight'';
          bedroomCount = req_body ''bedroomCount''; bathroomCount = req_body ''bathroomCount'';
          maxGuestCount = req_body ''maxGuestCount''; rating = req_body ''rating'';
          hostId = req_body ''hostId'' in
      if \<not> truthy title \<and> \<not> truthy description \<and> \<not> truthy location \<and>
         \<not> truthy pricePerNight \<and> \<not> truthy bedroomCount \<and> \<not> truthy bathroomCount \<and>
         \<not> truthy maxGuestCount \<and> \<not> truthy rating \<and> \<not> truthy hostId then
        (Response 400
           (Message (''At least one field (title, description, location, pricePerNight, '' @
              ''bedroomCount, bathroomCount, maxGuestCount, rating, or hostId) is required'')),
         w)
      else
        (case invoke (FindUnique Property (ById (Some (JStr id'))))
                (property_findUnique prisma (Some (JStr id'))) w of
           (Inl err, w1) \<Rightarrow> (server_error, w1)
         | (Inr None, w1) \<Rightarrow> (Response 404 (Message ''Property not found''), w1)
         | (Inr (Some property), w1) \<Rightarrow>
             (let updatedData = (\<lambda>k. None);
                  updatedData =
                    (if truthy title then updatedData(''title'' := title) else updatedData);
                  updatedData =
                    (if truthy description then updatedData(''description'' := description)
                     else updatedData);
                  updatedData =
                    (if truthy location then updatedData(''location'' := location)
                     else updatedData);
                  updatedData =
                    (if truthy pricePerNight
                     then updatedData(''pricePerNight'' := pricePerNight) else updatedData);
                  updatedData =
                    (if truthy bedroomCount
                     then updatedData(''bedroomCount'' := bedroomCount) else updatedData);
                  updatedData =
                    (if truthy bathroomCount
                     then updatedData(''bathroomCount'' := bathroomCount) else updatedData);
                  updatedData =
                    (if truthy maxGuestCount
                     then updatedData(''maxGuestCount'' := maxGuestCount) else updatedData);
                  updatedData =
                    (if truthy rating then updatedData(''rating'' := rating) else updatedData);
                  updatedData =
                    (if truthy hostId then updatedData(''hostId'' := hostId) else updatedData)
              in
                case invoke (Update Property id' updatedData)
                       (property_update prisma id' updatedData) w1 of
                  (Inl err, w2) \<Rightarrow> (server_error, w2)
                | (Inr updatedProperty, w2) \<Rightarrow>
                    (Response 200 (Entity updatedProperty), w2))))"

definition properties_delete ::
  "'st prisma \<Rightarrow> string \<Rightarrow> 'st world \<Rightarrow> unit response \<times> 'st world" where
  "properties_delete prisma id' w =
     (case invoke (Delete Property id') (property_delete prisma id') w of
        (Inr deletedProperty, w1) \<Rightarrow>
          (Response 200
             (Message (''Property '' @ property_title deletedProperty @ '' deleted successfully'')),
           w1)
      | (Inl err, w1) \<Rightarrow>
          if code err = Some ''P2025'' then
            (Response 404 (Message ''Property not found''), w1)
          else (server_error, w1))"

section \<open>The token service\<close>

text \<open>
  Modelled from the spec: the Token Service of section 4.2 and the Token Claim of section 3.
  Its code is the jsonwebtoken library, which is not in the repository. A claim holds
  \<open>{subjectId, subjectUsername, issuedAt, expiresAt}\<close> with
  \<open>expiresAt = issuedAt + 7h\<close>; instants are counted in seconds. A signature is kept
  symbolically, as the secret the token was signed with.
\<close>

record token_claim =
  subjectId :: string
  subjectUsername :: string
  issuedAt :: nat
  expiresAt :: nat

datatype token = Signed string token_claim | Malformed

definition seven_hours :: nat where
  "seven_hours = 7 * 60 * 60"

text \<open>
  Modelled from the spec: \<open>Issue(subjectId, subjectUsername)\<close> constructs a claim with
  \<open>issuedAt = now\<close> and \<open>expiresAt = now + 7 hours\<close> and signs it with the process-wide
  secret.
\<close>

definition Issue :: "string \<Rightarrow> nat \<Rightarrow> string \<Rightarrow> string \<Rightarrow> token" where
  "Issue secret now sid sname =
     Signed secret
       \<lparr>subjectId = sid, subjectUsername = sname, issuedAt = now,
        expiresAt = now + seven_hours\<rparr>"

text \<open>
  Modelled from the spec: \<open>Validate(token)\<close> fails if the signature does not verify, the
  structure is malformed, or \<open>now >= expiresAt\<close>; otherwise it returns the claim.
\<close>

definition Validate :: "string \<Rightarrow> nat \<Rightarrow> token \<Rightarrow> token_claim option" where
  "Validate secret now t =
     (case t of
        Malformed \<Rightarrow> None
      | Signed key c \<Rightarrow>
          if key \<noteq> secret then None
          else if now \<ge> expiresAt c then None
          else Some c)"

text \<open>
  Modelled from the spec: the time span of the library's \<open>expiresIn\<close> option, in
  seconds. Section 6 reads the option "7h" of the login as "expiry 7 hours from
  issuance": the option is a decimal number followed by a unit, \<open>s\<close>, \<open>m\<close>, \<open>h\<close> or
  \<open>d\<close>; the library throws for a text that is no time span (\<open>None\<close>).
\<close>

definition digit :: "char \<Rightarrow> nat option" where
  "digit c =
     map_of
       [(CHR ''0'', 0), (CHR ''1'', 1), (CHR ''2'', 2), (CHR ''3'', 3), (CHR ''4'', 4),
        (CHR ''5'', 5), (CHR ''6'', 6), (CHR ''7'', 7), (CHR ''8'', 8), (CHR ''9'', 9)] c"

fun number :: "nat \<Rightarrow> string \<Rightarrow> nat \<times> string" where
  "number n [] = (n, [])"
| "number n (c # cs) =
     (case digit c of Some d \<Rightarrow> number (10 * n + d) cs | None \<Rightarrow> (n, c # cs))"

definition unit_seconds :: "string \<Rightarrow> nat option" where
  "unit_seconds u =
     map_of [(''s'', 1), (''m'', 60), (''h'', 60 * 60), (''d'', 24 * 60 * 60)] u"

definition timespan :: "string \<Rightarrow> nat option" where
  "timespan s =
     (case s of
        [] \<Rightarrow> None
      | c # cs \<Rightarrow>
          (case digit c of
             None \<Rightarrow> None
           | Some d \<Rightarrow>
               (case number d cs of
                  (n, u) \<Rightarrow> map_option (\<lambda>seconds. n * seconds) (unit_seconds u))))"

text \<open>
  Modelled from the spec: the library's \<open>jwt.sign(payload, secret, options)\<close> at the
  instant \<open>now\<close>. It throws without a secret (section 6: the secret comes from the
  environment) and for an option that is no time span; otherwise the token carries the
  payload as its subject, \<open>issuedAt = now\<close> and \<open>expiresAt = now + expiresIn\<close>, signed
  with the secret (section 4.2, Issue).
\<close>

definition jwt_sign ::
  "nat \<Rightarrow> login_payload \<Rightarrow> string option \<Rightarrow> sign_options \<Rightarrow> token option" where
  "jwt_sign now payload secretOrPrivateKey options =
     (case secretOrPrivateKey of
        None \<Rightarrow> None
      | Some secret \<Rightarrow>
          if secret = [] then None
          else
            (case timespan (expiresIn options) of
               None \<Rightarrow> None
             | Some seconds \<Rightarrow>
                 Some (Signed secret
                         \<lparr>subjectId = payload_userId payload,
                          subjectUsername = payload_username payload,
                          issuedAt = now, expiresAt = now + seconds\<rparr>)))"

text \<open>
  Modelled from the spec: the object \<open>jwt.verify\<close> returns for a claim, which the
  middleware stores in \<open>req.user\<close>: the payload \<open>{userId, username}\<close> that was signed
  (section 6, and the comment in middleware/auth.js) with the two timestamps.
\<close>

definition decoded :: "token_claim \<Rightarrow> obj" where
  "decoded c =
     (\<lambda>k. None)
       (''userId'' := Some (JStr (subjectId c)),
        ''username'' := Some (JStr (subjectUsername c)),
        ''iat'' := Some (JNum (of_nat (issuedAt c))),
        ''exp'' := Some (JNum (of_nat (expiresAt c))))"

text \<open>
  Modelled from the spec: \<open>jwt.verify(token, secret)\<close> on the text of a token, which
  \<open>parse\<close> deserializes (\<open>Malformed\<close> for a text that is no token).
\<close>

definition jwt_verify :: "(string \<Rightarrow> token) \<Rightarrow> string \<Rightarrow> nat \<Rightarrow> string \<Rightarrow> obj option" where
  "jwt_verify parse secret now text = map_option decoded (Validate secret now (parse text))"

section \<open>A reference data store\<close>

text \<open>
  Modelled from the spec: the Data Store Adapter of section 2 (lookup by id, lookup by
  unique field, create, update and delete with "not found" signalling), over the tables,
  column types, unique columns and required relations of prisma/schema.prisma. Its code is
  the Prisma client and the database behind it, which are not in the repository. A table is
  the list of its rows. A thrown error carries Prisma's code: P2025 for a row that is not
  there, P2003 for a broken relation, P2002 for a repeated unique value, and no code for
  an argument of the wrong type.
\<close>

record db =
  users :: "user list"
  hosts :: "host list"
  properties :: "property list"
  bookings :: "booking list"
  reviews :: "review list"
  created :: nat

definition validation_error :: error where
  "validation_error = Error None"

definition not_found :: error where
  "not_found = Error (Some ''P2025'')"

definition foreign_key :: error where
  "foreign_key = Error (Some ''P2003'')"

definition unique_violation :: error where
  "unique_violation = Error (Some ''P2002'')"

fun as_string :: "js \<Rightarrow> string option" where
  "as_string (Some (JStr s)) = Some s"
| "as_string v = None"

fun as_opt_string :: "js \<Rightarrow> string option option" where
  "as_opt_string (Some (JStr s)) = Some (Some s)"
| "as_opt_string (Some JNull) = Some None"
| "as_opt_string None = Some None"
| "as_opt_string v = None"

fun as_float :: "js \<Rightarrow> rat option" where
  "as_float (Some (JNum n)) = Some n"
| "as_float v = None"

fun as_int :: "js \<Rightarrow> int option" where
  "as_int (Some (JNum n)) = (if n = of_int \<lfloor>n\<rfloor> then Some \<lfloor>n\<rfloor> else None)"
| "as_int v = None"

fun as_date :: "js \<Rightarrow> datetime option" where
  "as_date (Some (JDate v)) = Some v"
| "as_date v = None"

text \<open>A column of an update: left as it is when the data does not name it.\<close>

definition column :: "(js \<Rightarrow> 'a option) \<Rightarrow> js \<Rightarrow> 'a \<Rightarrow> 'a option" where
  "column conv v old = (case v of None \<Rightarrow> Some old | Some x \<Rightarrow> conv v)"

text \<open>The identifier of the \<open>n\<close>-th created row (the schema's \<open>@default(uuid())\<close>).\<close>

definition uuid :: "nat \<Rightarrow> string" where
  "uuid n = ''uuid-'' @ replicate n CHR ''i''"

definition find_unique :: "('r \<Rightarrow> string) \<Rightarrow> js \<Rightarrow> 'r list \<Rightarrow> error + 'r option" where
  "find_unique key v rows =
     (case as_string v of
        None \<Rightarrow> Inl validation_error
      | Some i \<Rightarrow> Inr (find (\<lambda>r. key r = i) rows))"

definition mem_user_findUnique :: "where_unique \<Rightarrow> db \<Rightarrow> (error + user option) \<times> db" where
  "mem_user_findUnique wh s =
     (case wh of
        ById v \<Rightarrow> (find_unique user_id v (users s), s)
      | ByUsername v \<Rightarrow> (find_unique user_username v (users s), s))"

definition mem_host_findUnique :: "js \<Rightarrow> db \<Rightarrow> (error + host option) \<times> db" where
  "mem_host_findUnique v s = (find_unique host_id v (hosts s), s)"

definition mem_property_findUnique :: "js \<Rightarrow> db \<Rightarrow> (error + property option) \<times> db" where
  "mem_property_findUnique v s = (find_unique property_id v (properties s), s)"

definition mem_review_findUnique :: "js \<Rightarrow> db \<Rightarrow> (error + review option) \<times> db" where
  "mem_review_findUnique v s = (find_unique review_id v (reviews s), s)"

definition mem_booking_findUnique :: "js \<Rightarrow> db \<Rightarrow> (error + booking option) \<times> db" where
  "mem_booking_findUnique v s = (find_unique booking_id v (bookings s), s)"

definition has_row :: "('r \<Rightarrow> string) \<Rightarrow> string \<Rightarrow> 'r list \<Rightarrow> bool" where
  "has_row key i rows = list_ex (\<lambda>r. key r = i) rows"

subsection \<open>Users\<close>

text \<open>
  Modelled from the spec: update and delete of a user row. The schema's unique columns are
  username and email; a user that a booking or a review refers to cannot be deleted.
\<close>

definition user_set :: "obj \<Rightarrow> user \<Rightarrow> user option" where
  "user_set data u =
     Option.bind (column as_string (data ''username'') (user_username u)) (\<lambda>username.
     Option.bind (column as_string (data ''email'') (user_email u)) (\<lambda>email.
     Option.bind (column as_string (data ''password'') (user_password u)) (\<lambda>password.
       Some (u\<lparr>user_username := username, user_email := email, user_password := password\<rparr>))))"

definition mem_user_update :: "string \<Rightarrow> obj \<Rightarrow> db \<Rightarrow> (error + user) \<times> db" where
  "mem_user_update i data s =
     (case find (\<lambda>u. user_id u = i) (users s) of
        None \<Rightarrow> (Inl not_found, s)
      | Some u \<Rightarrow>
          (case user_set data u of
             None \<Rightarrow> (Inl validation_error, s)
           | Some u' \<Rightarrow>
               if list_ex (\<lambda>x. user_id x \<noteq> i \<and>
                     (user_username x = user_username u' \<or> user_email x = user_email u'))
                    (users s)
               then (Inl unique_violation, s)
               else (Inr u', s\<lparr>users := map (\<lambda>x. if user_id x = i then u' else x) (users s)\<rparr>)))"

definition mem_user_delete :: "string \<Rightarrow> db \<Rightarrow> (error + user) \<times> db" where
  "mem_user_delete i s =
     (case find (\<lambda>u. user_id u = i) (users s) of
        None \<Rightarrow> (Inl not_found, s)
      | Some u \<Rightarrow>
          if has_row booking_userId i (bookings s) \<or> has_row review_userId i (reviews s)
          then (Inl foreign_key, s)
          else (Inr u, s\<lparr>users := filter (\<lambda>x. user_id x \<noteq> i) (users s)\<rparr>))"

subsection \<open>Reviews\<close>

text \<open>
  Modelled from the spec: create, update and delete of a review row, whose user and
  property must exist.
\<close>

definition review_set :: "obj \<Rightarrow> review \<Rightarrow> review option" where
  "review_set data r =
     Option.bind (column as_float (data ''rating'') (review_rating r)) (\<lambda>rating.
     Option.bind (column as_opt_string (data ''comment'') (review_comment r)) (\<lambda>comment.
     Option.bind (column as_string (data ''userId'') (review_userId r)) (\<lambda>userId.
     Option.bind (column as_string (data ''propertyId'') (review_propertyId r)) (\<lambda>propertyId.
       Some (r\<lparr>review_rating := rating, review_comment := comment,
                review_userId := userId, review_propertyId := propertyId\<rparr>)))))"

definition mem_review_create :: "obj \<Rightarrow> db \<Rightarrow> (error + review) \<times> db" where
  "mem_review_create data s =
     (case (as_float (data ''rating''), as_opt_string (data ''comment''),
            as_string (data ''userId''), as_string (data ''propertyId'')) of
        (Some rating, Some comment, Some userId, Some propertyId) \<Rightarrow>
          if \<not> has_row user_id userId (users s) \<or>
             \<not> has_row property_id propertyId (properties s)
          then (Inl foreign_key, s)
          else
            (let r = \<lparr>review_id = uuid (created s), review_rating = rating,
                      review_comment = comment, review_propertyId = propertyId,
                      review_userId = userId\<rparr>
             in (Inr r, s\<lparr>reviews := reviews s @ [r], created := Suc (created s)\<rparr>))
      | _ \<Rightarrow> (Inl validation_error, s))"

definition mem_review_update :: "string \<Rightarrow> obj \<Rightarrow> db \<Rightarrow> (error + review) \<times> db" where
  "mem_review_update i data s =
     (case find (\<lambda>r. review_id r = i) (reviews s) of
        None \<Rightarrow> (Inl not_found, s)
      | Some r \<Rightarrow>
          (case review_set data r of
             None \<Rightarrow> (Inl validation_error, s)
           | Some r' \<Rightarrow>
               if \<not> has_row user_id (review_userId r') (users s) \<or>
                  \<not> has_row property_id (review_propertyId r') (properties s)
               then (Inl foreign_key, s)
               else
                 (Inr r',
                  s\<lparr>reviews := map (\<lambda>x. if review_id x = i then r' else x) (reviews s)\<rparr>)))"

definition mem_review_delete :: "string \<Rightarrow> db \<Rightarrow> (error + review) \<times> db" where
  "mem_review_delete i s =
     (case find (\<lambda>r. review_id r = i) (reviews s) of
        None \<Rightarrow> (Inl not_found, s)
      | Some r \<Rightarrow> (Inr r, s\<lparr>reviews := filter (\<lambda>x. review_id x \<noteq> i) (reviews s)\<rparr>))"

subsection \<open>Bookings\<close>

text \<open>
  Modelled from the spec: create, update and delete of a booking row, whose user and
  property must exist. A date column holds the value its Date object was built from.
\<close>

definition booking_set :: "obj \<Rightarrow> booking \<Rightarrow> booking option" where
  "booking_set data b =
     Option.bind (column as_date (data ''startDate'') (booking_startDate b)) (\<lambda>startDate.
     Option.bind (column as_date (data ''endDate'') (booking_endDate b)) (\<lambda>endDate.
     Option.bind (column as_string (data ''userId'') (booking_userId b)) (\<lambda>userId.
     Option.bind (column as_string (data ''propertyId'') (booking_propertyId b)) (\<lambda>propertyId.
       Some (b\<lparr>booking_startDate := startDate, booking_endDate := endDate,
                booking_userId := userId, booking_propertyId := propertyId\<rparr>)))))"

definition mem_booking_create :: "obj \<Rightarrow> db \<Rightarrow> (error + booking) \<times> db" where
  "mem_booking_create data s =
     (case (as_date (data ''startDate''), as_date (data ''endDate''),
            as_string (data ''userId''), as_string (data ''propertyId'')) of
        (Some startDate, Some endDate, Some userId, Some propertyId) \<Rightarrow>
          if \<not> has_row user_id userId (users s) \<or>
             \<not> has_row property_id propertyId (properties s)
          then (Inl foreign_key, s)
          else
            (let b = \<lparr>booking_id = uuid (created s), booking_startDate = startDate,
                      booking_endDate = endDate, booking_propertyId = propertyId,
                      booking_userId = userId\<rparr>
             in (Inr b, s\<lparr>bookings := bookings s @ [b], created := Suc (created s)\<rparr>))
      | _ \<Rightarrow> (Inl validation_error, s))"

definition mem_booking_update :: "string \<Rightarrow> obj \<Rightarrow> db \<Rightarrow> (error + booking) \<times> db" where
  "mem_booking_update i data s =
     (case find (\<lambda>b. booking_id b = i) (bookings s) of
        None \<Rightarrow> (Inl not_found, s)
      | Some b \<Rightarrow>
          (case booking_set data b of
             None \<Rightarrow> (Inl validation_error, s)
           | Some b' \<Rightarrow>
               if \<not> has_row user_id (booking_userId b') (users s) \<or>
                  \<not> has_row property_id (booking_propertyId b') (properties s)
               then (Inl foreign_key, s)
               else
                 (Inr b',
                  s\<lparr>bookings := map (\<lambda>x. if booking_id x = i then b' else x) (bookings s)\<rparr>)))"

definition mem_booking_delete :: "string \<Rightarrow> db \<Rightarrow> (error + booking) \<times> db" where
  "mem_booking_delete i s =
     (case find (\<lambda>b. booking_id b = i) (bookings s) of
        None \<Rightarrow> (Inl not_found, s)
      | Some b \<Rightarrow> (Inr b, s\<lparr>bookings := filter (\<lambda>x. booking_id x \<noteq> i) (bookings s)\<rparr>))"

subsection \<open>Properties\<close>

text \<open>
  Modelled from the spec: create, update and delete of a property row, whose host must
  exist; a property that a booking or a review refers to cannot be deleted.
\<close>

definition property_set :: "obj \<Rightarrow> property \<Rightarrow> property option" where
  "property_set data p =
     Option.bind (column as_string (data ''title'') (property_title p)) (\<lambda>title.
     Option.bind (column as_string (data ''description'') (property_description p)) (\<lambda>description.
     Option.bind (column as_string (data ''location'') (property_location p)) (\<lambda>location.
     Option.bind (column as_float (data ''pricePerNight'') (property_pricePerNight p)) (\<lambda>pricePerNight.
     Option.bind (column as_int (data ''bedroomCount'') (property_bedroomCount p)) (\<lambda>bedroomCount.
     Option.bind (column as_int (data ''bathroomCount'') (property_bathroomCount p)) (\<lambda>bathroomCount.
     Option.bind (column as_int (data ''maxGuestCount'') (property_maxGuestCount p)) (\<lambda>maxGuestCount.
     Option.bind (column as_float (data ''rating'') (property_rating p)) (\<lambda>rating.
     Option.bind (column as_string (data ''hostId'') (property_hostId p)) (\<lambda>hostId.
       Some (p\<lparr>property_title := title, property_description := description,
                property_location := location, property_pricePerNight := pricePerNight,
                property_bedroomCount := bedroomCount, property_bathroomCount := bathroomCount,
                property_maxGuestCount := maxGuestCount, property_rating := rating,
                property_hostId := hostId\<rparr>))))))))))"

definition mem_property_create :: "obj \<Rightarrow> db \<Rightarrow> (error + property) \<times> db" where
  "mem_property_create data s =
     (case (as_string (data ''title''), as_string (data ''description''),
            as_string (data ''location''), as_float (data ''pricePerNight''),
            as_int (data ''bedroomCount''), as_int (data ''bathroomCount''),
            as_int (data ''maxGuestCount''), as_float (data ''rating''),
            as_string (data ''hostId'')) of
        (Some title, Some description, Some location, Some pricePerNight, Some bedroomCount,
         Some bathroomCount, Some maxGuestCount, Some rating, Some hostId) \<Rightarrow>
          if \<not> has_row host_id hostId (hosts s) then (Inl foreign_key, s)
          else
            (let p = \<lparr>property_id = uuid (created s), property_title = title,
                      property_description = description, property_location = location,
                      property_pricePerNight = pricePerNight,
                      property_bedroomCount = bedroomCount,
                      property_bathroomCount = bathroomCount,
                      property_maxGuestCount = maxGuestCount, property_rating = rating,
                      property_hostId = hostId\<rparr>
             in (Inr p, s\<lparr>properties := properties s @ [p], created := Suc (created s)\<rparr>))
      | _ \<Rightarrow> (Inl validation_error, s))"

definition mem_property_update :: "string \<Rightarrow> obj \<Rightarrow> db \<Rightarrow> (error + property) \<times> db" where
  "mem_property_update i data s =
     (case find (\<lambda>p. property_id p = i) (properties s) of
        None \<Rightarrow> (Inl not_found, s)
      | Some p \<Rightarrow>
          (case property_set data p of
             None \<Rightarrow> (Inl validation_error, s)
           | Some p' \<Rightarrow>
               if \<not> has_row host_id (property_hostId p') (hosts s)
               then (Inl foreign_key, s)
               else
                 (Inr p',
                  s\<lparr>properties :=
                       map (\<lambda>x. if property_id x = i then p' else x) (properties s)\<rparr>)))"

definition mem_property_delete :: "string \<Rightarrow> db \<Rightarrow> (error + property) \<times> db" where
  "mem_property_delete i s =
     (case find (\<lambda>p. property_id p = i) (properties s) of
        None \<Rightarrow> (Inl not_found, s)
      | Some p \<Rightarrow>
          if has_row booking_propertyId i (bookings s) \<or>
             has_row review_propertyId i (reviews s)
          then (Inl foreign_key, s)
          else (Inr p, s\<lparr>properties := filter (\<lambda>x. property_id x \<noteq> i) (properties s)\<rparr>))"

definition mem_prisma :: "db prisma" where
  "mem_prisma =
     \<lparr>user_findUnique = mem_user_findUnique,
      user_update = mem_user_update,
      user_delete = mem_user_delete,
      host_findUnique = mem_host_findUnique,
      property_findUnique = mem_property_findUnique,
      property_create = mem_property_create,
      property_update = mem_property_update,
      property_delete = mem_property_delete,
      review_findUnique = mem_review_findUnique,
      review_create = mem_review_create,
      review_update = mem_review_update,
      review_delete = mem_review_delete,
      booking_findUnique = mem_booking_findUnique,
      booking_create = mem_booking_create,
      booking_update = mem_booking_update,
      booking_delete = mem_booking_delete\<rparr>"

section \<open>An example store\<close>

text \<open>
  The store of the spec's scenarios: the user jdoe whose stored password is "secret", a
  second user, a host with one property, and a review and a booking of that property by
  the second user.
\<close>

definition jdoe :: user where
  "jdoe =
     \<lparr>user_id = ''u1'', user_username = ''jdoe'', user_name = ''John Doe'',
      user_email = ''johndoe@example.com'', user_phoneNumber = ''123456789'',
      user_profilePicture = None, user_password = ''secret''\<rparr>"

definition asmith :: user where
  "asmith =
     \<lparr>user_id = ''u2'', user_username = ''asmith'', user_name = ''Anna Smith'',
      user_email = ''asmith@example.com'', user_phoneNumber = ''987654321'',
      user_profilePicture = None, user_password = ''hunter2''\<rparr>"

definition example_host :: host where
  "example_host =
     \<lparr>host_id = ''h1'', host_username = ''lwood'', host_name = ''Linda Wood'',
      host_email = ''lwood@example.com'', host_phoneNumber = ''555000111'',
      host_profilePicture = None, host_aboutMe = None\<rparr>"

definition example_property :: property where
  "example_property =
     \<lparr>property_id = ''p1'', property_title = ''Beautiful House'',
      property_description = ''A lovely house in the city.'',
      property_location = ''Malibu, California'', property_pricePerNight = 1241 / 4,
      property_bedroomCount = 3, property_bathroomCount = 2, property_maxGuestCount = 6,
      property_rating = 9 / 2, property_hostId = ''h1''\<rparr>"

definition example_review :: review where
  "example_review =
     \<lparr>review_id = ''r1'', review_rating = 4, review_comment = Some ''Great stay'',
      review_propertyId = ''p1'', review_userId = ''u2''\<rparr>"

definition example_booking :: booking where
  "example_booking =
     \<lparr>booking_id = ''b1'', booking_startDate = Some (JStr ''2024-06-01''),
      booking_endDate = Some (JStr ''2024-06-08''), booking_propertyId = ''p1'',
      booking_userId = ''u2''\<rparr>"

definition example_db :: db where
  "example_db =
     \<lparr>users = [jdoe, asmith], hosts = [example_host], properties = [example_property],
      bookings = [example_booking], reviews = [example_review], created = 0\<rparr>"

section \<open>A store with a concurrent delete\<close>

text \<open>
  Modelled from the spec: by section 5 a lookup followed by a mutation is not
  transactional, so another request can delete the row in between. This store behaves as
  the reference store except that a review is deleted by someone else just before its
  update, which therefore finds no row and throws P2025.
\<close>

definition vanishing_prisma :: "db prisma" where
  "vanishing_prisma =
     mem_prisma
       \<lparr>review_update :=
          (\<lambda>i data s.
             (Inl not_found, s\<lparr>reviews := filter (\<lambda>x. review_id x \<noteq> i) (reviews s)\<rparr>))\<rparr>"

section \<open>The fields of a partial update\<close>

text \<open>
  The properties among \<open>ks\<close> that are truthy in a payload, with their values; every other
  property is undefined.
\<close>

definition provided :: "string list \<Rightarrow> obj \<Rightarrow> obj" where
  "provided ks req_body = (\<lambda>k. if k \<in> set ks \<and> truthy (req_body k) then req_body k else None)"

text \<open>The same for a booking, whose two dates are turned into Date objects.\<close>

definition provided_booking :: "obj \<Rightarrow> obj" where
  "provided_booking req_body =
     (\<lambda>k. if k \<in> {''startDate'', ''endDate''} \<and> truthy (req_body k) then newDate (req_body k)
          else provided [''userId'', ''propertyId''] req_body k)"

section \<open>The authorization middleware\<close>

lemma split_without_separator: "sep \<notin> set s \<Longrightarrow> split sep s = [s]"
  by (induction s) auto

lemma bearer_without_space: "CHR '' '' \<notin> set h \<Longrightarrow> bearer (Some h) = None"
  by (simp add: bearer_def index_def split_without_separator)

text \<open>
  Claim C4. A protected request whose token is absent (no header, or no second piece in
  it, or an empty one) is answered 401 with "No token provided, authorization denied"; one
  whose token is present and refused by the verification (malformed, signed with another
  secret, or expired) is answered 401 with "Invalid or expired token". In both cases the
  result is the same for every downstream handler and the world, store and call list
  included, is returned as it was: the handler does not run and the store is not reached.
\<close>

theorem verifyToken_rejects:
  "(bearer authorization = None \<or> bearer authorization = Some [] \<longrightarrow>
      verifyToken verify authorization =
        Respond 401 ''No token provided, authorization denied'' \<and>
      protected verify authorization handler w =
        (Response 401 (Message ''No token provided, authorization denied''), w)) \<and>
   (bearer authorization = Some t \<and> t \<noteq> [] \<and> verify t = None \<longrightarrow>
      verifyToken verify authorization = Respond 401 ''Invalid or expired token'' \<and>
      protected verify authorization handler w =
        (Response 401 (Message ''Invalid or expired token''), w)) \<and>
   (bearer authorization = Some t \<and> t \<noteq> [] \<and>
      (parse t = Malformed \<or>
       (\<exists>key c. parse t = Signed key c \<and> (key \<noteq> secret \<or> expiresAt c \<le> now))) \<longrightarrow>
      protected (jwt_verify parse secret now) authorization handler w =
        (Response 401 (Message ''Invalid or expired token''), w))"
  by (auto simp: verifyToken_def protected_def jwt_verify_def Validate_def)

text \<open>
  With no header the handler is skipped even when the verification accepts everything;
  with a header the handler is skipped when the verification refuses the token, as it
  does for a token whose seven hours are over.
\<close>

theorem verifyToken_rejects_witness:
  "bearer None = None \<and>
   protected (\<lambda>t. Some (\<lambda>k. None)) None
       (\<lambda>req_user w. (Response 200 (Message ''handler'') :: unit response, ''ran'' # w)) [] =
     (Response 401 (Message ''No token provided, authorization denied''), []) \<and>
   bearer (Some ''Bearer abc'') = Some ''abc'' \<and>
   protected (\<lambda>t. None) (Some ''Bearer abc'')
       (\<lambda>req_user w. (Response 200 (Message ''handler'') :: unit response, ''ran'' # w)) [] =
     (Response 401 (Message ''Invalid or expired token''), []) \<and>
   protected
       (jwt_verify
          (\<lambda>t. Signed ''secret''
             \<lparr>subjectId = ''u1'', subjectUsername = ''jdoe'', issuedAt = 0,
              expiresAt = seven_hours\<rparr>)
          ''secret'' seven_hours)
       (Some ''Bearer abc'')
       (\<lambda>req_user w. (Response 200 (Message ''handler'') :: unit response, ''ran'' # w)) [] =
     (Response 401 (Message ''Invalid or expired token''), [])"
  using
    verifyToken_rejects [where authorization = None and verify = "\<lambda>t. Some (\<lambda>k. None)"
      and handler =
        "\<lambda>req_user w. (Response 200 (Message ''handler'') :: unit response, ''ran'' # w)"
      and w = "[]"]
    verifyToken_rejects [where authorization = "Some ''Bearer abc''" and verify = "\<lambda>t. None"
      and t = "''abc''"
      and handler =
        "\<lambda>req_user w. (Response 200 (Message ''handler'') :: unit response, ''ran'' # w)"
      and w = "[]"
      and parse = "\<lambda>t. Signed ''secret''
             \<lparr>subjectId = ''u1'', subjectUsername = ''jdoe'', issuedAt = 0,
              expiresAt = seven_hours\<rparr>"
      and secret = "''secret''" and now = seven_hours]
  by (simp add: bearer_def index_def seven_hours_def)

text \<open>
  Claim C10. An Authorization header with no space in it (a raw token without the
  "Bearer " prefix, for one) has no second piece: the middleware answers 401 with
  "No token provided, authorization denied" whatever the verification function is, so the
  verification is not consulted, and the handler does not run.
\<close>

theorem verifyToken_without_space:
  "CHR '' '' \<notin> set h \<Longrightarrow>
     bearer (Some h) = None \<and>
     verifyToken verify (Some h) = Respond 401 ''No token provided, authorization denied'' \<and>
     protected verify (Some h) handler w =
       (Response 401 (Message ''No token provided, authorization denied''), w)"
  by (simp add: bearer_without_space verifyToken_def protected_def)

text \<open>
  The raw token is refused even by a verification that accepts everything; behind
  "Bearer " the same token reaches the verification.
\<close>

theorem verifyToken_without_space_witness:
  "CHR '' '' \<notin> set ''eyJhbGciOiJIUzI1NiJ9'' \<and>
   verifyToken (\<lambda>t. Some (\<lambda>k. None)) (Some ''eyJhbGciOiJIUzI1NiJ9'') =
     Respond 401 ''No token provided, authorization denied'' \<and>
   verifyToken (\<lambda>t. Some (\<lambda>k. None)) (Some ''Bearer eyJhbGciOiJIUzI1NiJ9'') =
     Next (\<lambda>k. None)"
  using verifyToken_without_space [of "''eyJhbGciOiJIUzI1NiJ9''" "\<lambda>t. Some (\<lambda>k. None)"]
  by (simp add: verifyToken_def bearer_def index_def)

section \<open>Login and the token\<close>

lemma timespan_seven_hours: "timespan ''7h'' = Some seven_hours"
  by (simp add: timespan_def digit_def unit_seconds_def seven_hours_def)

lemma jwt_sign_login:
  "secret \<noteq> [] \<Longrightarrow>
   jwt_sign now payload (Some secret) \<lparr>expiresIn = ''7h''\<rparr> =
     Some (Issue secret now (payload_userId payload) (payload_username payload))"
  by (simp add: jwt_sign_def timespan_seven_hours Issue_def)

lemma find_distinct_key:
  "distinct (map key xs) \<Longrightarrow> x \<in> set xs \<Longrightarrow> find (\<lambda>y. key y = key x) xs = Some x"
  by (induction xs) (auto simp: image_iff)

text \<open>
  Claim C6, as amended. POST /login answers 400 when the username or the password is
  missing (or otherwise falsy). Otherwise, when the lookup by username completes without
  a store error: it answers 401 "Invalid credentials" when the lookup finds no user, and
  the same 401 when it finds one whose stored password is not exactly the supplied value
  (a string compared character by character); and when the supplied password is the
  stored one and \<open>jwt.sign\<close> returns a token for the payload \<open>{userId, username}\<close>, the
  secret of the environment and the option \<open>{expiresIn: "7h"}\<close>, it answers 200 with
  that token.
\<close>

theorem login_post_outcomes:
  "(\<not> truthy (req_body ''username'') \<or> \<not> truthy (req_body ''password'') \<longrightarrow>
      login_post prisma sign JWT_SECRET req_body w =
        (Response 400 (Message ''Username and password are required''), w)) \<and>
   (truthy (req_body ''username'') \<and> truthy (req_body ''password'') \<and>
    user_findUnique prisma (ByUsername (req_body ''username'')) (snd w) = (Inr None, s') \<longrightarrow>
      fst (login_post prisma sign JWT_SECRET req_body w) =
        Response 401 (Message ''Invalid credentials'')) \<and>
   (truthy (req_body ''username'') \<and> truthy (req_body ''password'') \<and>
    user_findUnique prisma (ByUsername (req_body ''username'')) (snd w) = (Inr (Some u), s') \<and>
    req_body ''password'' \<noteq> Some (JStr (user_password u)) \<longrightarrow>
      fst (login_post prisma sign JWT_SECRET req_body w) =
        Response 401 (Message ''Invalid credentials'')) \<and>
   (truthy (req_body ''username'') \<and> truthy (req_body ''password'') \<and>
    user_findUnique prisma (ByUsername (req_body ''username'')) (snd w) = (Inr (Some u), s') \<and>
    req_body ''password'' = Some (JStr (user_password u)) \<and>
    sign \<lparr>payload_userId = user_id u, payload_username = user_username u\<rparr> JWT_SECRET
      \<lparr>expiresIn = ''7h''\<rparr> = Some tok \<longrightarrow>
      fst (login_post prisma sign JWT_SECRET req_body w) = Response 200 (Entity tok))"
  by (auto simp: login_post_def invoke_def strict_neq_def Let_def)

lemma mem_find_jdoe:
  "user_findUnique mem_prisma (ByUsername (Some (JStr ''jdoe''))) example_db =
     (Inr (Some jdoe), example_db)"
  by (simp add: mem_prisma_def mem_user_findUnique_def find_unique_def example_db_def
      jdoe_def asmith_def)

lemma mem_find_nobody:
  "user_findUnique mem_prisma (ByUsername (Some (JStr ''nobody''))) example_db =
     (Inr None, example_db)"
  by (simp add: mem_prisma_def mem_user_findUnique_def find_unique_def example_db_def
      jdoe_def asmith_def)

lemma jdoe_fields:
  "user_password jdoe = ''secret''" "user_id jdoe = ''u1''" "user_username jdoe = ''jdoe''"
  by (simp_all add: jdoe_def)

text \<open>
  On the example store, with the secret "k": a missing password, an unknown user, a wrong
  password, a password that differs in case only, and the right one.
\<close>

theorem login_post_outcomes_witness:
  "login_post mem_prisma (jwt_sign 0) (Some ''k'') [''username'' \<mapsto> JStr ''jdoe'']
       ([], example_db) =
     (Response 400 (Message ''Username and password are required''), ([], example_db)) \<and>
   fst (login_post mem_prisma (jwt_sign 0) (Some ''k'')
          [''username'' \<mapsto> JStr ''nobody'', ''password'' \<mapsto> JStr ''secret'']
          ([], example_db)) =
     Response 401 (Message ''Invalid credentials'') \<and>
   fst (login_post mem_prisma (jwt_sign 0) (Some ''k'')
          [''username'' \<mapsto> JStr ''jdoe'', ''password'' \<mapsto> JStr ''wrong'']
          ([], example_db)) =
     Response 401 (Message ''Invalid credentials'') \<and>
   fst (login_post mem_prisma (jwt_sign 0) (Some ''k'')
          [''username'' \<mapsto> JStr ''jdoe'', ''password'' \<mapsto> JStr ''Secret'']
          ([], example_db)) =
     Response 401 (Message ''Invalid credentials'') \<and>
   fst (login_post mem_prisma (jwt_sign 0) (Some ''k'')
          [''username'' \<mapsto> JStr ''jdoe'', ''password'' \<mapsto> JStr ''secret'']
          ([], example_db)) =
     Response 200 (Entity (Issue ''k'' 0 ''u1'' ''jdoe''))"
  using
    login_post_outcomes [where req_body = "[''username'' \<mapsto> JStr ''jdoe'']"
      and prisma = mem_prisma and sign = "jwt_sign 0" and JWT_SECRET = "Some ''k''"
      and w = "([], example_db)"]
    login_post_outcomes [where
      req_body = "[''username'' \<mapsto> JStr ''nobody'', ''password'' \<mapsto> JStr ''secret'']"
      and prisma = mem_prisma and sign = "jwt_sign 0" and JWT_SECRET = "Some ''k''"
      and w = "([], example_db)" and s' = example_db]
    login_post_outcomes [where
      req_body = "[''username'' \<mapsto> JStr ''jdoe'', ''password'' \<mapsto> JStr ''wrong'']"
      and prisma = mem_prisma and sign = "jwt_sign 0" and JWT_SECRET = "Some ''k''"
      and w = "([], example_db)" and s' = example_db and u = jdoe]
    login_post_outcomes [where
      req_body = "[''username'' \<mapsto> JStr ''jdoe'', ''password'' \<mapsto> JStr ''Secret'']"
      and prisma = mem_prisma and sign = "jwt_sign 0" and JWT_SECRET = "Some ''k''"
      and w = "([], example_db)" and s' = example_db and u = jdoe]
    login_post_outcomes [where
      req_body = "[''username'' \<mapsto> JStr ''jdoe'', ''password'' \<mapsto> JStr ''secret'']"
      and prisma = mem_prisma and sign = "jwt_sign 0" and JWT_SECRET = "Some ''k''"
      and w = "([], example_db)" and s' = example_db and u = jdoe
      and tok = "Issue ''k'' 0 ''u1'' ''jdoe''"]
  by (simp add: mem_find_jdoe mem_find_nobody jdoe_fields jwt_sign_login)

text \<open>
  The claim as stated fails for a username that is not a string: no stored user has the
  username 5, the lookup throws, and the answer is 500, not 401.
\<close>

theorem login_post_numeric_username_counterexample:
  "list_all (\<lambda>u. JStr (user_username u) \<noteq> JNum 5) (users example_db) \<and>
   fst (login_post mem_prisma (jwt_sign 0) (Some ''k'')
          [''username'' \<mapsto> JNum 5, ''password'' \<mapsto> JStr ''secret'']
          ([], example_db)) =
     Response 500 (Message ''Server error'')"
  by (simp add: login_post_def invoke_def mem_prisma_def mem_user_findUnique_def
      find_unique_def example_db_def)

lemma login_issues_token:
  assumes "user_username u \<noteq> []" "user_password u \<noteq> []" "secret \<noteq> []"
    and "req_body ''username'' = Some (JStr (user_username u))"
    and "req_body ''password'' = Some (JStr (user_password u))"
    and "user_findUnique prisma (ByUsername (Some (JStr (user_username u)))) (snd w) =
           (Inr (Some u), s')"
  shows "\<exists>tok.
       fst (login_post prisma (jwt_sign now) (Some secret) req_body w) =
         Response 200 (Entity tok) \<and>
       (\<forall>t. Validate secret t tok =
          (if t < now + seven_hours
           then Some \<lparr>subjectId = user_id u, subjectUsername = user_username u,
                      issuedAt = now, expiresAt = now + seven_hours\<rparr>
           else None))"
  using assms
  by (simp add: login_post_def invoke_def strict_neq_def jwt_sign_login Issue_def
      Validate_def)

text \<open>
  Claim C8, as amended. For a user whose stored username and password are not empty, and
  a secret of the environment that is set and not empty: whenever the lookup by that
  username returns the user (as it does on the reference store for every stored user, the
  usernames being unique), logging in with that username and that password answers 200
  with a token, and Validate accepts that token, returning the claim of that user issued
  at the login instant, at every instant strictly before issuedAt + 7 hours, and rejects
  it at every instant from issuedAt + 7 hours on.
\<close>

theorem login_token_expiry:
  "(user_username u \<noteq> [] \<and> user_password u \<noteq> [] \<and> secret \<noteq> [] \<and>
    req_body ''username'' = Some (JStr (user_username u)) \<and>
    req_body ''password'' = Some (JStr (user_password u)) \<and>
    user_findUnique prisma (ByUsername (Some (JStr (user_username u)))) (snd w) =
      (Inr (Some u), s') \<longrightarrow>
      (\<exists>tok.
         fst (login_post prisma (jwt_sign now) (Some secret) req_body w) =
           Response 200 (Entity tok) \<and>
         (\<forall>t. Validate secret t tok =
            (if t < now + seven_hours
             then Some \<lparr>subjectId = user_id u, subjectUsername = user_username u,
                        issuedAt = now, expiresAt = now + seven_hours\<rparr>
             else None)))) \<and>
   (user_username u \<noteq> [] \<and> user_password u \<noteq> [] \<and> secret \<noteq> [] \<and>
    req_body ''username'' = Some (JStr (user_username u)) \<and>
    req_body ''password'' = Some (JStr (user_password u)) \<and>
    u \<in> set (users s) \<and> distinct (map user_username (users s)) \<longrightarrow>
      (\<exists>tok.
         fst (login_post mem_prisma (jwt_sign now) (Some secret) req_body (l, s)) =
           Response 200 (Entity tok) \<and>
         (\<forall>t. Validate secret t tok =
            (if t < now + seven_hours
             then Some \<lparr>subjectId = user_id u, subjectUsername = user_username u,
                        issuedAt = now, expiresAt = now + seven_hours\<rparr>
             else None))))"
proof -
  have stored:
    "user_findUnique mem_prisma (ByUsername (Some (JStr (user_username u)))) (snd (l, s)) =
       (Inr (Some u), s)"
    if "u \<in> set (users s)" "distinct (map user_username (users s))"
    using find_distinct_key [of user_username "users s" u] that
    by (simp add: mem_prisma_def mem_user_findUnique_def find_unique_def)
  show ?thesis
    using login_issues_token [of u secret req_body prisma w s' now]
      login_issues_token [of u secret req_body mem_prisma "(l, s)" s now] stored
    by blast
qed

text \<open>On the example store, jdoe logs in at the instant 1000 with the secret "k".\<close>

theorem login_token_expiry_witness:
  "fst (login_post mem_prisma (jwt_sign 1000) (Some ''k'')
          [''username'' \<mapsto> JStr ''jdoe'', ''password'' \<mapsto> JStr ''secret'']
          ([], example_db)) =
     Response 200 (Entity (Issue ''k'' 1000 ''u1'' ''jdoe'')) \<and>
   Validate ''k'' 26199 (Issue ''k'' 1000 ''u1'' ''jdoe'') =
     Some \<lparr>subjectId = ''u1'', subjectUsername = ''jdoe'', issuedAt = 1000,
           expiresAt = 26200\<rparr> \<and>
   Validate ''k'' 26200 (Issue ''k'' 1000 ''u1'' ''jdoe'') = None"
proof -
  have stored: "jdoe \<in> set (users example_db)"
      "distinct (map user_username (users example_db))"
    by (simp_all add: example_db_def jdoe_def asmith_def)
  have login: "fst (login_post mem_prisma (jwt_sign 1000) (Some ''k'')
          [''username'' \<mapsto> JStr ''jdoe'', ''password'' \<mapsto> JStr ''secret'']
          ([], example_db)) =
     Response 200 (Entity (Issue ''k'' 1000 ''u1'' ''jdoe''))"
    by (simp add: login_post_def invoke_def mem_find_jdoe strict_neq_def jdoe_fields
        jwt_sign_login)
  have "\<exists>tok.
      fst (login_post mem_prisma (jwt_sign 1000) (Some ''k'')
             [''username'' \<mapsto> JStr ''jdoe'', ''password'' \<mapsto> JStr ''secret'']
             ([], example_db)) = Response 200 (Entity tok) \<and>
      (\<forall>t. Validate ''k'' t tok =
         (if t < 1000 + seven_hours
          then Some \<lparr>subjectId = ''u1'', subjectUsername = ''jdoe'',
                     issuedAt = 1000, expiresAt = 1000 + seven_hours\<rparr>
          else None))"
    using login_token_expiry [where u = jdoe and secret = "''k''" and s = example_db
        and l = "[]" and now = 1000 and prisma = mem_prisma and w = "([], example_db)"
        and s' = example_db
        and req_body = "[''username'' \<mapsto> JStr ''jdoe'', ''password'' \<mapsto> JStr ''secret'']"]
      stored
    unfolding jdoe_fields by simp
  then obtain tok where
    tok: "fst (login_post mem_prisma (jwt_sign 1000) (Some ''k'')
          [''username'' \<mapsto> JStr ''jdoe'', ''password'' \<mapsto> JStr ''secret'']
          ([], example_db)) = Response 200 (Entity tok)"
    and valid: "\<And>t. Validate ''k'' t tok =
            (if t < 1000 + seven_hours
             then Some \<lparr>subjectId = ''u1'', subjectUsername = ''jdoe'',
                        issuedAt = 1000, expiresAt = 1000 + seven_hours\<rparr>
             else None)"
    by blast
  from tok login have "tok = Issue ''k'' 1000 ''u1'' ''jdoe''" by simp
  with login valid [of 26199] valid [of 26200] show ?thesis
    by (simp add: seven_hours_def)
qed

text \<open>
  The claim as stated fails for a stored user whose password is the empty string: logging
  in with that user's username and password is answered 400. It also needs the secret:
  with the environment variable not set, jdoe's login with the right password is answered
  500.
\<close>

theorem login_empty_password_counterexample:
  "jdoe\<lparr>user_password := []\<rparr> \<in>
     set (users (example_db\<lparr>users := [jdoe\<lparr>user_password := []\<rparr>, asmith]\<rparr>)) \<and>
   fst (login_post mem_prisma (jwt_sign 0) (Some ''k'')
          [''username'' \<mapsto> JStr ''jdoe'', ''password'' \<mapsto> JStr []]
          ([], example_db\<lparr>users := [jdoe\<lparr>user_password := []\<rparr>, asmith]\<rparr>)) =
     Response 400 (Message ''Username and password are required'') \<and>
   fst (login_post mem_prisma (jwt_sign 0) None
          [''username'' \<mapsto> JStr ''jdoe'', ''password'' \<mapsto> JStr ''secret'']
          ([], example_db)) =
     Response 500 (Message ''Server error'')"
  by (simp add: login_post_def invoke_def mem_find_jdoe strict_neq_def jdoe_fields
      jwt_sign_def)

section \<open>Ownership of a user account\<close>

lemma decoded_has_no_id: "decoded c ''id'' = None"
  by (simp add: decoded_def)

lemma users_put_not_owner:
  "req_user ''id'' \<noteq> Some (JStr id') \<Longrightarrow>
   users_put prisma req_user id' req_body w =
     (if truthy (req_body ''username'') \<or> truthy (req_body ''email'') \<or>
         truthy (req_body ''password'')
      then Response 403 (Message ''You can only update your own account'')
      else Response 400
             (Message ''At least one field is required (username, email, or password)''),
      w)"
  by (simp add: users_put_def strict_neq_def Let_def)

lemma users_delete_not_owner:
  "req_user ''id'' \<noteq> Some (JStr id') \<Longrightarrow>
   users_delete prisma req_user id' w =
     (Response 403 (Message ''You can only delete your own account''), w)"
  by (simp add: users_delete_def strict_neq_def)

text \<open>
  Claim C1, at the input where the code departs from it. On the example store jdoe logs in
  with the right password and gets a token for \<open>{userId: "u1", username: "jdoe"}\<close>. With
  that token, PUT /users/u1 with a new email is answered 403 "You can only update your
  own account" and nothing of the store is read or written: the handler compares
  \<open>req.user.id\<close>, a property the login payload does not have, with the path's id. The
  same request is answered 200 with the updated user, the password left out, once
  \<open>req.user\<close> has a property \<open>id\<close> equal to the path's id.
\<close>

theorem users_put_own_account_forbidden:
  "fst (login_post mem_prisma (jwt_sign 0) (Some ''k'')
          [''username'' \<mapsto> JStr ''jdoe'', ''password'' \<mapsto> JStr ''secret'']
          ([], example_db)) =
     Response 200 (Entity (Issue ''k'' 0 ''u1'' ''jdoe'')) \<and>
   protected (jwt_verify (\<lambda>t. Issue ''k'' 0 ''u1'' ''jdoe'') ''k'' 1) (Some ''Bearer abc'')
       (\<lambda>req_user. users_put mem_prisma req_user ''u1''
          [''email'' \<mapsto> JStr ''john@example.com''])
       ([], example_db) =
     (Response 403 (Message ''You can only update your own account''), ([], example_db)) \<and>
   fst (users_put mem_prisma [''id'' \<mapsto> JStr ''u1''] ''u1''
          [''email'' \<mapsto> JStr ''john@example.com''] ([], example_db)) =
     Response 200
       (Entity
          \<lparr>user_id = ''u1'', user_username = ''jdoe'', user_name = ''John Doe'',
           user_email = ''john@example.com'', user_phoneNumber = ''123456789'',
           user_profilePicture = None\<rparr>)"
proof -
  have login: "fst (login_post mem_prisma (jwt_sign 0) (Some ''k'')
          [''username'' \<mapsto> JStr ''jdoe'', ''password'' \<mapsto> JStr ''secret'']
          ([], example_db)) =
     Response 200 (Entity (Issue ''k'' 0 ''u1'' ''jdoe''))"
    by (simp add: login_post_def invoke_def mem_find_jdoe strict_neq_def jdoe_fields
        jwt_sign_login)
  have put: "protected (jwt_verify (\<lambda>t. Issue ''k'' 0 ''u1'' ''jdoe'') ''k'' 1)
       (Some ''Bearer abc'')
       (\<lambda>req_user. users_put mem_prisma req_user ''u1''
          [''email'' \<mapsto> JStr ''john@example.com''])
       ([], example_db) =
     (Response 403 (Message ''You can only update your own account''), ([], example_db))"
    by (simp add: Validate_def Issue_def seven_hours_def protected_def verifyToken_def
        bearer_def index_def jwt_verify_def users_put_not_owner decoded_has_no_id)
  have owner: "fst (users_put mem_prisma [''id'' \<mapsto> JStr ''u1''] ''u1''
          [''email'' \<mapsto> JStr ''john@example.com''] ([], example_db)) =
     Response 200
       (Entity
          \<lparr>user_id = ''u1'', user_username = ''jdoe'', user_name = ''John Doe'',
           user_email = ''john@example.com'', user_phoneNumber = ''123456789'',
           user_profilePicture = None\<rparr>)"
    by (simp add: users_put_def strict_neq_def invoke_def mem_prisma_def
        mem_user_findUnique_def find_unique_def mem_user_update_def user_set_def column_def
        example_db_def jdoe_def asmith_def user.defs userWithoutPassword.defs)
  from login put owner show ?thesis by blast
qed

theorem users_put_own_account_forbidden_witness:
  "status (fst (protected (jwt_verify (\<lambda>t. Issue ''k'' 0 ''u1'' ''jdoe'') ''k'' 1)
       (Some ''Bearer abc'')
       (\<lambda>req_user. users_put mem_prisma req_user ''u1''
          [''email'' \<mapsto> JStr ''john@example.com''])
       ([], example_db))) = 403"
  using users_put_own_account_forbidden by simp

text \<open>
  Claim C2, as amended. When the token's subject is not the user of the path (whether the
  subject is read as \<open>req.user.id\<close>, as the handlers do, or as the \<open>userId\<close> of the claim
  the login issued), DELETE /users/:id is answered 403, and PUT /users/:id is answered 403
  when one of username, email, password is truthy in the payload and 400 when none is; in
  each case the world is returned as it was, so no user row was read or written.
\<close>

theorem users_other_identity_forbidden:
  "(req_user ''id'' \<noteq> Some (JStr id') \<longrightarrow>
      users_delete prisma req_user id' w =
        (Response 403 (Message ''You can only delete your own account''), w) \<and>
      users_put prisma req_user id' req_body w =
        (if truthy (req_body ''username'') \<or> truthy (req_body ''email'') \<or>
            truthy (req_body ''password'')
         then Response 403 (Message ''You can only update your own account'')
         else Response 400
                (Message ''At least one field is required (username, email, or password)''),
         w)) \<and>
   (subjectId c \<noteq> id' \<longrightarrow>
      users_delete prisma (decoded c) id' w =
        (Response 403 (Message ''You can only delete your own account''), w) \<and>
      users_put prisma (decoded c) id' req_body w =
        (if truthy (req_body ''username'') \<or> truthy (req_body ''email'') \<or>
            truthy (req_body ''password'')
         then Response 403 (Message ''You can only update your own account'')
         else Response 400
                (Message ''At least one field is required (username, email, or password)''),
         w))"
  using users_put_not_owner [of req_user id' prisma req_body w]
    users_delete_not_owner [of req_user id' prisma w]
    users_put_not_owner [of "decoded c" id' prisma req_body w]
    users_delete_not_owner [of "decoded c" id' prisma w]
  by (simp add: decoded_has_no_id)

text \<open>The spec's scenario: the token's subject is "7", the path's user is "42".\<close>

theorem users_other_identity_forbidden_witness:
  "protected (jwt_verify (\<lambda>t. Issue ''k'' 0 ''7'' ''asmith'') ''k'' 1) (Some ''Bearer abc'')
       (\<lambda>req_user. users_put mem_prisma req_user ''42''
          [''email'' \<mapsto> JStr ''m@example.com''])
       ([], example_db) =
     (Response 403 (Message ''You can only update your own account''), ([], example_db)) \<and>
   protected (jwt_verify (\<lambda>t. Issue ''k'' 0 ''7'' ''asmith'') ''k'' 1) (Some ''Bearer abc'')
       (\<lambda>req_user. users_delete mem_prisma req_user ''42'')
       ([], example_db) =
     (Response 403 (Message ''You can only delete your own account''), ([], example_db))"
  using users_other_identity_forbidden [where
      c = "\<lparr>subjectId = ''7'', subjectUsername = ''asmith'', issuedAt = 0,
             expiresAt = seven_hours\<rparr>"
      and id' = "''42''" and prisma = mem_prisma and w = "([], example_db)"
      and req_body = "[''email'' \<mapsto> JStr ''m@example.com'']"]
  by (simp add: Validate_def Issue_def seven_hours_def protected_def
      verifyToken_def bearer_def index_def jwt_verify_def)

text \<open>
  The claim as stated fails for a PUT whose payload has none of the three fields: the
  token's subject "7" is not the path's user "42", and the answer is 400, not 403.
\<close>

theorem users_put_other_identity_counterexample:
  "Validate ''k'' 1 (Issue ''k'' 0 ''7'' ''asmith'') =
     Some \<lparr>subjectId = ''7'', subjectUsername = ''asmith'', issuedAt = 0,
            expiresAt = seven_hours\<rparr> \<and>
   ''7'' \<noteq> ''42'' \<and>
   protected (jwt_verify (\<lambda>t. Issue ''k'' 0 ''7'' ''asmith'') ''k'' 1) (Some ''Bearer abc'')
       (\<lambda>req_user. users_put mem_prisma req_user ''42'' [''name'' \<mapsto> JStr ''Mallory''])
       ([], example_db) =
     (Response 400
        (Message ''At least one field is required (username, email, or password)''),
      ([], example_db))"
  by (simp add: Validate_def Issue_def seven_hours_def protected_def
      verifyToken_def bearer_def index_def jwt_verify_def users_put_def)

text \<open>
  No claim that the login issues passes the ownership check, whoever its subject is: with
  such a token every DELETE /users/:id is answered 403, and every PUT /users/:id is
  answered 403, or 400 when no updatable field is truthy, the owner's requests included.
\<close>

theorem login_token_never_owner:
  "users_delete prisma (decoded c) id' w =
     (Response 403 (Message ''You can only delete your own account''), w) \<and>
   users_put prisma (decoded c) id' req_body w =
     (if truthy (req_body ''username'') \<or> truthy (req_body ''email'') \<or>
         truthy (req_body ''password'')
      then Response 403 (Message ''You can only update your own account'')
      else Response 400
             (Message ''At least one field is required (username, email, or password)''),
      w)"
  using users_put_not_owner [of "decoded c" id' prisma req_body w]
    users_delete_not_owner [of "decoded c" id' prisma w]
  by (simp add: decoded_has_no_id)

section \<open>References of a created row\<close>

lemma reviews_post_user_missing:
  "truthy (req_body ''rating'') \<Longrightarrow> truthy (req_body ''comment'') \<Longrightarrow>
   truthy (req_body ''userId'') \<Longrightarrow> truthy (req_body ''propertyId'') \<Longrightarrow>
   user_findUnique prisma (ById (req_body ''userId'')) (snd w) = (Inr None, sa) \<Longrightarrow>
   reviews_post prisma req_body w =
     (Response 404 (Message ''User not found''),
      (fst w @ [FindUnique User (ById (req_body ''userId''))], sa))"
  by (simp add: reviews_post_def invoke_def)


lemma bookings_post_user_missing:
  "truthy (req_body ''startDate'') \<Longrightarrow> truthy (req_body ''endDate'') \<Longrightarrow>
   truthy (req_body ''userId'') \<Longrightarrow> truthy (req_body ''propertyId'') \<Longrightarrow>
   user_findUnique prisma (ById (req_body ''userId'')) (snd w) = (Inr None, sa) \<Longrightarrow>
   bookings_post prisma req_body w =
     (Response 404 (Message ''User not found''),
      (fst w @ [FindUnique User (ById (req_body ''userId''))], sa))"
  by (simp add: bookings_post_def invoke_def)





lemma mem_user_absent:
  "find (\<lambda>u. user_id u = i) (users s) = None \<Longrightarrow>
   user_findUnique mem_prisma (ById (Some (JStr i))) s = (Inr None, s)"
  by (simp add: mem_prisma_def mem_user_findUnique_def find_unique_def)




lemma example_users:
  "find (\<lambda>u. user_id u = ''ghost'') (users example_db) = None"
  "find (\<lambda>u. user_id u = ''u2'') (users example_db) = Some asmith"
  by (simp_all add: example_db_def jdoe_def asmith_def)

lemma example_properties:
  "find (\<lambda>p. property_id p = ''p9'') (properties example_db) = None"
  by (simp add: example_db_def example_property_def)



lemma reviews_post_calls:
  "fst (snd (reviews_post prisma req_body w)) \<in>
     {fst w,
      fst w @ [FindUnique User (ById (req_body ''userId''))],
      fst w @ [FindUnique User (ById (req_body ''userId'')),
               FindUnique Property (ById (req_body ''propertyId''))],
      fst w @ [FindUnique User (ById (req_body ''userId'')),
               FindUnique Property (ById (req_body ''propertyId'')),
               Create Review
                 ((\<lambda>k. None)
                    (''rating'' := req_body ''rating'', ''comment'' := req_body ''comment'',
                     ''userId'' := req_body ''userId'',
                     ''propertyId'' := req_body ''propertyId''))]}"
  by (simp add: reviews_post_def invoke_def Let_def
      split: prod.splits sum.splits option.splits)

lemma bookings_post_calls:
  "fst (snd (bookings_post prisma req_body w)) \<in>
     {fst w,
      fst w @ [FindUnique User (ById (req_body ''userId''))],
      fst w @ [FindUnique User (ById (req_body ''userId'')),
               FindUnique Property (ById (req_body ''propertyId''))],
      fst w @ [FindUnique User (ById (req_body ''userId'')),
               FindUnique Property (ById (req_body ''propertyId'')),
               Create Booking
                 ((\<lambda>k. None)
                    (''startDate'' := newDate (req_body ''startDate''),
                     ''endDate'' := newDate (req_body ''endDate''),
                     ''userId'' := req_body ''userId'',
                     ''propertyId'' := req_body ''propertyId''))]}"
  by (simp add: bookings_post_def invoke_def Let_def
      split: prod.splits sum.splits option.splits)

text \<open>
  Claim C9, as amended. In every run of POST /reviews and of POST /bookings the calls
  made are none, or the user lookup alone, or the user lookup followed by the property
  lookup, or these two followed by the create: the user is looked up before the property.
  Therefore, when the required fields are all truthy and the user lookup completes
  without a store error and returns no row, the answer is 404 "User not found" and the
  user lookup is the only call made, whatever the referenced property is. On the
  reference store that is the case whenever the userId is a string, not empty, that is
  the id of no stored user.
\<close>

theorem create_checks_user_first:
  "fst (snd (reviews_post prisma req_body w)) \<in>
     {fst w,
      fst w @ [FindUnique User (ById (req_body ''userId''))],
      fst w @ [FindUnique User (ById (req_body ''userId'')),
               FindUnique Property (ById (req_body ''propertyId''))],
      fst w @ [FindUnique User (ById (req_body ''userId'')),
               FindUnique Property (ById (req_body ''propertyId'')),
               Create Review
                 ((\<lambda>k. None)
                    (''rating'' := req_body ''rating'', ''comment'' := req_body ''comment'',
                     ''userId'' := req_body ''userId'',
                     ''propertyId'' := req_body ''propertyId''))]} \<and>
   fst (snd (bookings_post prisma req_body w)) \<in>
     {fst w,
      fst w @ [FindUnique User (ById (req_body ''userId''))],
      fst w @ [FindUnique User (ById (req_body ''userId'')),
               FindUnique Property (ById (req_body ''propertyId''))],
      fst w @ [FindUnique User (ById (req_body ''userId'')),
               FindUnique Property (ById (req_body ''propertyId'')),
               Create Booking
                 ((\<lambda>k. None)
                    (''startDate'' := newDate (req_body ''startDate''),
                     ''endDate'' := newDate (req_body ''endDate''),
                     ''userId'' := req_body ''userId'',
                     ''propertyId'' := req_body ''propertyId''))]} \<and>
   (truthy (req_body ''rating'') \<and> truthy (req_body ''comment'') \<and>
    truthy (req_body ''userId'') \<and> truthy (req_body ''propertyId'') \<and>
    user_findUnique prisma (ById (req_body ''userId'')) (snd w) = (Inr None, sa) \<longrightarrow>
      reviews_post prisma req_body w =
        (Response 404 (Message ''User not found''),
         (fst w @ [FindUnique User (ById (req_body ''userId''))], sa))) \<and>
   (truthy (req_body ''startDate'') \<and> truthy (req_body ''endDate'') \<and>
    truthy (req_body ''userId'') \<and> truthy (req_body ''propertyId'') \<and>
    user_findUnique prisma (ById (req_body ''userId'')) (snd w) = (Inr None, sa) \<longrightarrow>
      bookings_post prisma req_body w =
        (Response 404 (Message ''User not found''),
         (fst w @ [FindUnique User (ById (req_body ''userId''))], sa))) \<and>
   (truthy (req_body ''rating'') \<and> truthy (req_body ''comment'') \<and>
    req_body ''userId'' = Some (JStr uid) \<and> uid \<noteq> [] \<and> truthy (req_body ''propertyId'') \<and>
    find (\<lambda>u. user_id u = uid) (users s) = None \<longrightarrow>
      reviews_post mem_prisma req_body (l, s) =
        (Response 404 (Message ''User not found''),
         (l @ [FindUnique User (ById (Some (JStr uid)))], s))) \<and>
   (truthy (req_body ''startDate'') \<and> truthy (req_body ''endDate'') \<and>
    req_body ''userId'' = Some (JStr uid) \<and> uid \<noteq> [] \<and> truthy (req_body ''propertyId'') \<and>
    find (\<lambda>u. user_id u = uid) (users s) = None \<longrightarrow>
      bookings_post mem_prisma req_body (l, s) =
        (Response 404 (Message ''User not found''),
         (l @ [FindUnique User (ById (Some (JStr uid)))], s)))"
  apply (intro conjI)
  subgoal by (rule reviews_post_calls)
  subgoal by (rule bookings_post_calls)
  subgoal by (intro impI) (elim conjE, rule reviews_post_user_missing; assumption)
  subgoal by (intro impI) (elim conjE, rule bookings_post_user_missing; assumption)
  subgoal
    using reviews_post_user_missing [of req_body mem_prisma "(l, s)" s]
    by (simp add: mem_user_absent)
  subgoal
    using bookings_post_user_missing [of req_body mem_prisma "(l, s)" s]
    by (simp add: mem_user_absent)
  done

text \<open>
  The claim as stated fails in two ways. A request that lacks a required field is answered
  400: neither the user "ghost" nor the property "p9" is in the store, and a booking
  without a start date is answered 400, not 404. And a lookup can fail: with every
  required field truthy and the numeric ids 1 and 1, which are the ids of no stored user
  and of no stored property, the user lookup throws and the answer is 500.
\<close>

theorem bookings_post_missing_date_counterexample:
  "find (\<lambda>u. user_id u = ''ghost'') (users example_db) = None \<and>
   find (\<lambda>p. property_id p = ''p9'') (properties example_db) = None \<and>
   bookings_post mem_prisma
       [''endDate'' \<mapsto> JStr ''2024-07-03'', ''userId'' \<mapsto> JStr ''ghost'',
        ''propertyId'' \<mapsto> JStr ''p9'']
       ([], example_db) =
     (Response 400 (Message ''Start date, end date, user ID, and property ID are required''),
      ([], example_db)) \<and>
   list_all (\<lambda>u. JStr (user_id u) \<noteq> JNum 1) (users example_db) \<and>
   list_all (\<lambda>p. JStr (property_id p) \<noteq> JNum 1) (properties example_db) \<and>
   bookings_post mem_prisma
       [''startDate'' \<mapsto> JStr ''2024-07-01'', ''endDate'' \<mapsto> JStr ''2024-07-03'',
        ''userId'' \<mapsto> JNum 1, ''propertyId'' \<mapsto> JNum 1]
       ([], example_db) =
     (Response 500 (Message ''Server error''),
      ([FindUnique User (ById (Some (JNum 1)))], example_db))"
  apply (intro conjI)
  subgoal by (rule example_users)
  subgoal by (rule example_properties)
  subgoal by (simp add: bookings_post_def)
  subgoal by (simp add: example_db_def)
  subgoal by (simp add: example_db_def)
  subgoal by (simp add: bookings_post_def invoke_def mem_prisma_def mem_user_findUnique_def
      find_unique_def Let_def)
  done

text \<open>
  On the example store: a review and a booking whose user and property are both unknown,
  and a review by an unknown user of the property that is there.
\<close>

theorem create_checks_user_first_witness:
  "reviews_post mem_prisma
       [''rating'' \<mapsto> JNum 5, ''comment'' \<mapsto> JStr ''Nice'', ''userId'' \<mapsto> JStr ''ghost'',
        ''propertyId'' \<mapsto> JStr ''p9'']
       ([], example_db) =
     (Response 404 (Message ''User not found''),
      ([FindUnique User (ById (Some (JStr ''ghost'')))], example_db)) \<and>
   bookings_post mem_prisma
       [''startDate'' \<mapsto> JStr ''2024-07-01'', ''endDate'' \<mapsto> JStr ''2024-07-03'',
        ''userId'' \<mapsto> JStr ''ghost'', ''propertyId'' \<mapsto> JStr ''p9'']
       ([], example_db) =
     (Response 404 (Message ''User not found''),
      ([FindUnique User (ById (Some (JStr ''ghost'')))], example_db)) \<and>
   reviews_post mem_prisma
       [''rating'' \<mapsto> JNum 5, ''comment'' \<mapsto> JStr ''Nice'', ''userId'' \<mapsto> JStr ''ghost'',
        ''propertyId'' \<mapsto> JStr ''p1'']
       ([], example_db) =
     (Response 404 (Message ''User not found''),
      ([FindUnique User (ById (Some (JStr ''ghost'')))], example_db))"
  using
    create_checks_user_first [where s = example_db and l = "[]" and prisma = mem_prisma
      and w = "([], example_db)" and uid = "''ghost''" and sa = example_db and req_body =
       "[''rating'' \<mapsto> JNum 5, ''comment'' \<mapsto> JStr ''Nice'', ''userId'' \<mapsto> JStr ''ghost'',
        ''propertyId'' \<mapsto> JStr ''p9'']"]
    create_checks_user_first [where s = example_db and l = "[]" and prisma = mem_prisma
      and w = "([], example_db)" and uid = "''ghost''" and sa = example_db and req_body =
       "[''startDate'' \<mapsto> JStr ''2024-07-01'', ''endDate'' \<mapsto> JStr ''2024-07-03'',
        ''userId'' \<mapsto> JStr ''ghost'', ''propertyId'' \<mapsto> JStr ''p9'']"]
    create_checks_user_first [where s = example_db and l = "[]" and prisma = mem_prisma
      and w = "([], example_db)" and uid = "''ghost''" and sa = example_db and req_body =
       "[''rating'' \<mapsto> JNum 5, ''comment'' \<mapsto> JStr ''Nice'', ''userId'' \<mapsto> JStr ''ghost'',
        ''propertyId'' \<mapsto> JStr ''p1'']"]
  by (simp add: example_users mem_user_absent)

section \<open>Runs of the delete and update handlers\<close>

lemma find_filter_out: "find (\<lambda>x. key x = i) (filter (\<lambda>x. key x \<noteq> i) xs) = None"
  by (induction xs) auto

lemma reviews_delete_run:
  "review_delete prisma id' (snd w) = (r, sa) \<Longrightarrow>
   reviews_delete prisma id' w =
     ((case r of
         Inr deleted \<Rightarrow>
           Response 200
             (Message (''Review with ID '' @ review_id deleted @ '' deleted successfully''))
       | Inl err \<Rightarrow>
           if code err = Some ''P2025'' then Response 404 (Message ''Review not found'')
           else server_error),
      (fst w @ [Delete Review id'], sa))"
  by (simp add: reviews_delete_def invoke_def split: sum.splits)

lemma bookings_delete_run:
  "booking_delete prisma id' (snd w) = (r, sa) \<Longrightarrow>
   bookings_delete prisma id' w =
     ((case r of
         Inr deleted \<Rightarrow>
           Response 200
             (Message (''Booking with ID '' @ booking_id deleted @ '' deleted successfully''))
       | Inl err \<Rightarrow>
           if code err = Some ''P2025'' then Response 404 (Message ''Booking not found'')
           else server_error),
      (fst w @ [Delete Booking id'], sa))"
  by (simp add: bookings_delete_def invoke_def split: sum.splits)

lemma properties_delete_run:
  "property_delete prisma id' (snd w) = (r, sa) \<Longrightarrow>
   properties_delete prisma id' w =
     ((case r of
         Inr deleted \<Rightarrow>
           Response 200
             (Message (''Property '' @ property_title deleted @ '' deleted successfully''))
       | Inl err \<Rightarrow>
           if code err = Some ''P2025'' then Response 404 (Message ''Property not found'')
           else server_error),
      (fst w @ [Delete Property id'], sa))"
  by (simp add: properties_delete_def invoke_def split: sum.splits)

lemma users_delete_run:
  "req_user ''id'' = Some (JStr id') \<Longrightarrow> user_delete prisma id' (snd w) = (r, sa) \<Longrightarrow>
   users_delete prisma req_user id' w =
     ((case r of
         Inr deleted \<Rightarrow>
           Response 200 (Message (''User '' @ user_username deleted @ '' deleted successfully''))
       | Inl err \<Rightarrow>
           if code err = Some ''P2025'' then Response 404 (Message ''User not found'')
           else server_error),
      (fst w @ [Delete User id'], sa))"
  by (simp add: users_delete_def strict_neq_def invoke_def split: sum.splits)

lemma provided_empty: "provided [] req_body = (\<lambda>k. None)"
  by (simp add: provided_def)

lemma provided_step:
  "(if truthy (req_body k) then (provided ks req_body)(k := req_body k)
    else provided ks req_body) = provided (ks @ [k]) req_body"
  by (auto simp: provided_def fun_eq_iff)

lemma reviews_updatedData:
  "(let updatedData = (\<lambda>k. None);
        updatedData =
          (if truthy (req_body ''rating'') then updatedData(''rating'' := req_body ''rating'')
           else updatedData);
        updatedData =
          (if truthy (req_body ''comment'') then updatedData(''comment'' := req_body ''comment'')
           else updatedData);
        updatedData =
          (if truthy (req_body ''userId'') then updatedData(''userId'' := req_body ''userId'')
           else updatedData);
        updatedData =
          (if truthy (req_body ''propertyId'')
           then updatedData(''propertyId'' := req_body ''propertyId'') else updatedData)
    in f updatedData) =
   f (provided [''rating'', ''comment'', ''userId'', ''propertyId''] req_body)"
  by (simp only: Let_def provided_empty [of req_body, symmetric] provided_step append.simps)

lemma properties_updatedData:
  "(let updatedData = (\<lambda>k. None);
                  updatedData =
                    (if truthy (req_body ''title'') then updatedData(''title'' := req_body ''title'') else updatedData);
                  updatedData =
                    (if truthy (req_body ''description'') then updatedData(''description'' := req_body ''description'')
                     else updatedData);
                  updatedData =
                    (if truthy (req_body ''location'') then updatedData(''location'' := req_body ''location'')
                     else updatedData);
                  updatedData =
                    (if truthy (req_body ''pricePerNight'')
                     then updatedData(''pricePerNight'' := req_body ''pricePerNight'') else updatedData);
                  updatedData =
                    (if truthy (req_body ''bedroomCount'')
                     then updatedData(''bedroomCount'' := req_body ''bedroomCount'') else updatedData);
                  updatedData =
                    (if truthy (req_body ''bathroomCount'')
                     then updatedData(''bathroomCount'' := req_body ''bathroomCount'') else updatedData);
                  updatedData =
                    (if truthy (req_body ''maxGuestCount'')
                     then updatedData(''maxGuestCount'' := req_body ''maxGuestCount'') else updatedData);
                  updatedData =
                    (if truthy (req_body ''rating'') then updatedData(''rating'' := req_body ''rating'') else updatedData);
                  updatedData =
                    (if truthy (req_body ''hostId'') then updatedData(''hostId'' := req_body ''hostId'') else updatedData)
    in f updatedData) =
   f (provided [''title'', ''description'', ''location'', ''pricePerNight'', ''bedroomCount'',
       ''bathroomCount'', ''maxGuestCount'', ''rating'', ''hostId''] req_body)"
  by (simp only: Let_def provided_empty [of req_body, symmetric] provided_step append.simps)

lemma reviews_put_run:
  "reviews_put prisma id' req_body w =
     (if \<not> truthy (req_body ''rating'') \<and> \<not> truthy (req_body ''comment'') \<and>
         \<not> truthy (req_body ''userId'') \<and> \<not> truthy (req_body ''propertyId'') then
        (Response 400
           (Message ''At least one field (rating, comment, userId, propertyId) is required''),
         w)
      else
        (case invoke (FindUnique Review (ById (Some (JStr id'))))
                (review_findUnique prisma (Some (JStr id'))) w of
           (Inl err, w1) \<Rightarrow> (server_error, w1)
         | (Inr None, w1) \<Rightarrow> (Response 404 (Message ''Review not found''), w1)
         | (Inr (Some review), w1) \<Rightarrow>
             (case invoke
                     (Update Review id'
                        (provided [''rating'', ''comment'', ''userId'', ''propertyId''] req_body))
                     (review_update prisma id'
                        (provided [''rating'', ''comment'', ''userId'', ''propertyId''] req_body))
                     w1 of
                (Inl err, w2) \<Rightarrow> (server_error, w2)
              | (Inr updatedReview, w2) \<Rightarrow> (Response 200 (Entity updatedReview), w2))))"
  unfolding reviews_put_def Let_def [of "req_body ''rating''"]
    Let_def [of "req_body ''comment''"] Let_def [of "req_body ''userId''"]
    Let_def [of "req_body ''propertyId''"] reviews_updatedData
  by (rule refl)

lemma users_updatedData:
  "(let updatedData = (\<lambda>k. None);
        updatedData =
          (if truthy (req_body ''username'')
           then updatedData(''username'' := req_body ''username'') else updatedData);
        updatedData =
          (if truthy (req_body ''email'') then updatedData(''email'' := req_body ''email'')
           else updatedData);
        updatedData =
          (if truthy (req_body ''password'')
           then updatedData(''password'' := req_body ''password'') else updatedData)
    in f updatedData) =
   f (provided [''username'', ''email'', ''password''] req_body)"
  by (simp only: Let_def provided_empty [of req_body, symmetric] provided_step append.simps)

lemma bookings_updatedData:
  "(let updatedData = (\<lambda>k. None);
        updatedData =
          (if truthy (req_body ''startDate'')
           then updatedData(''startDate'' := newDate (req_body ''startDate''))
           else updatedData);
        updatedData =
          (if truthy (req_body ''endDate'')
           then updatedData(''endDate'' := newDate (req_body ''endDate'')) else updatedData);
        updatedData =
          (if truthy (req_body ''userId'') then updatedData(''userId'' := req_body ''userId'')
           else updatedData);
        updatedData =
          (if truthy (req_body ''propertyId'')
           then updatedData(''propertyId'' := req_body ''propertyId'') else updatedData)
    in f updatedData) =
   f (provided_booking req_body)"
  apply (simp only: Let_def)
  apply (rule arg_cong [where f = f])
  apply (auto simp: fun_eq_iff provided_booking_def provided_def)
  done

lemma users_put_run:
  "users_put prisma req_user id' req_body w =
     (if \<not> truthy (req_body ''username'') \<and> \<not> truthy (req_body ''email'') \<and>
         \<not> truthy (req_body ''password'') then
        (Response 400
           (Message ''At least one field is required (username, email, or password)''), w)
      else if strict_neq (req_user ''id'') id' then
        (Response 403 (Message ''You can only update your own account''), w)
      else
        (case invoke (FindUnique User (ById (Some (JStr id'))))
                (user_findUnique prisma (ById (Some (JStr id')))) w of
           (Inl err, w1) \<Rightarrow> (server_error, w1)
         | (Inr None, w1) \<Rightarrow> (Response 404 (Message ''User not found''), w1)
         | (Inr (Some user), w1) \<Rightarrow>
             (case invoke
                     (Update User id' (provided [''username'', ''email'', ''password''] req_body))
                     (user_update prisma id'
                        (provided [''username'', ''email'', ''password''] req_body))
                     w1 of
                (Inl err, w2) \<Rightarrow> (server_error, w2)
              | (Inr updatedUser, w2) \<Rightarrow>
                  (Response 200 (Entity (userWithoutPassword.truncate updatedUser)), w2))))"
  unfolding users_put_def Let_def [of "req_body ''username''"]
    Let_def [of "req_body ''email''"] Let_def [of "req_body ''password''"] users_updatedData
  by (rule refl)

lemma bookings_put_run:
  "bookings_put prisma id' req_body w =
     (if \<not> truthy (req_body ''startDate'') \<and> \<not> truthy (req_body ''endDate'') \<and>
         \<not> truthy (req_body ''userId'') \<and> \<not> truthy (req_body ''propertyId'') then
        (Response 400
           (Message
              ''At least one field (startDate, endDate, userId, propertyId) is required''),
         w)
      else
        (case invoke (FindUnique Booking (ById (Some (JStr id'))))
                (booking_findUnique prisma (Some (JStr id'))) w of
           (Inl err, w1) \<Rightarrow> (server_error, w1)
         | (Inr None, w1) \<Rightarrow> (Response 404 (Message ''Booking not found''), w1)
         | (Inr (Some booking), w1) \<Rightarrow>
             (case invoke (Update Booking id' (provided_booking req_body))
                     (booking_update prisma id' (provided_booking req_body)) w1 of
                (Inl err, w2) \<Rightarrow> (server_error, w2)
              | (Inr updatedBooking, w2) \<Rightarrow> (Response 200 (Entity updatedBooking), w2))))"
  unfolding bookings_put_def Let_def [of "req_body ''startDate''"]
    Let_def [of "req_body ''endDate''"] Let_def [of "req_body ''userId''"]
    Let_def [of "req_body ''propertyId''"] bookings_updatedData
  by (rule refl)

lemma properties_put_run:
  "properties_put prisma id' req_body w =
     (if \<not> truthy (req_body ''title'') \<and> \<not> truthy (req_body ''description'') \<and>
         \<not> truthy (req_body ''location'') \<and> \<not> truthy (req_body ''pricePerNight'') \<and>
         \<not> truthy (req_body ''bedroomCount'') \<and> \<not> truthy (req_body ''bathroomCount'') \<and>
         \<not> truthy (req_body ''maxGuestCount'') \<and> \<not> truthy (req_body ''rating'') \<and>
         \<not> truthy (req_body ''hostId'') then
        (Response 400
           (Message (''At least one field (title, description, location, pricePerNight, '' @
              ''bedroomCount, bathroomCount, maxGuestCount, rating, or hostId) is required'')),
         w)
      else
        (case invoke (FindUnique Property (ById (Some (JStr id'))))
                (property_findUnique prisma (Some (JStr id'))) w of
           (Inl err, w1) \<Rightarrow> (server_error, w1)
         | (Inr None, w1) \<Rightarrow> (Response 404 (Message ''Property not found''), w1)
         | (Inr (Some property), w1) \<Rightarrow>
             (case invoke
                     (Update Property id'
                        (provided
                           [''title'', ''description'', ''location'', ''pricePerNight'',
                            ''bedroomCount'', ''bathroomCount'', ''maxGuestCount'', ''rating'',
                            ''hostId''] req_body))
                     (property_update prisma id'
                        (provided
                           [''title'', ''description'', ''location'', ''pricePerNight'',
                            ''bedroomCount'', ''bathroomCount'', ''maxGuestCount'', ''rating'',
                            ''hostId''] req_body))
                     w1 of
                (Inl err, w2) \<Rightarrow> (server_error, w2)
              | (Inr updatedProperty, w2) \<Rightarrow> (Response 200 (Entity updatedProperty), w2))))"
  unfolding properties_put_def Let_def [of "req_body ''title''"]
    Let_def [of "req_body ''description''"] Let_def [of "req_body ''location''"]
    Let_def [of "req_body ''pricePerNight''"] Let_def [of "req_body ''bedroomCount''"]
    Let_def [of "req_body ''bathroomCount''"] Let_def [of "req_body ''maxGuestCount''"]
    Let_def [of "req_body ''rating''"] Let_def [of "req_body ''hostId''"]
    properties_updatedData
  by (rule refl)

section \<open>Store failures at mutation time\<close>

text \<open>
  An update whose store call throws, after the lookup found the row, is answered 500
  "Server error" whatever the error is: the catch blocks of the four update handlers do
  not look at the error's code.
\<close>

lemma reviews_put_update_fails:
  assumes "truthy (req_body ''rating'') \<or> truthy (req_body ''comment'') \<or>
     truthy (req_body ''userId'') \<or> truthy (req_body ''propertyId'')"
    and "review_findUnique prisma (Some (JStr id')) (snd w) = (Inr (Some r), sa)"
    and "review_update prisma id'
       (provided [''rating'', ''comment'', ''userId'', ''propertyId''] req_body) sa =
       (Inl e, sb)"
  shows "reviews_put prisma id' req_body w =
     (server_error,
      (fst w @ [FindUnique Review (ById (Some (JStr id'))),
                Update Review id'
                  (provided [''rating'', ''comment'', ''userId'', ''propertyId''] req_body)],
       sb))"
  using assms by (auto simp: reviews_put_run invoke_def)

lemma bookings_put_update_fails:
  assumes "truthy (req_body ''startDate'') \<or> truthy (req_body ''endDate'') \<or>
     truthy (req_body ''userId'') \<or> truthy (req_body ''propertyId'')"
    and "booking_findUnique prisma (Some (JStr id')) (snd w) = (Inr (Some b), sa)"
    and "booking_update prisma id' (provided_booking req_body) sa = (Inl e, sb)"
  shows "fst (bookings_put prisma id' req_body w) = server_error"
  using assms by (auto simp: bookings_put_run invoke_def)

lemma properties_put_update_fails:
  assumes "list_ex (\<lambda>k. truthy (req_body k))
      [''title'', ''description'', ''location'', ''pricePerNight'', ''bedroomCount'',
       ''bathroomCount'', ''maxGuestCount'', ''rating'', ''hostId'']"
    and "property_findUnique prisma (Some (JStr id')) (snd w) = (Inr (Some p), sa)"
    and "property_update prisma id'
       (provided
          [''title'', ''description'', ''location'', ''pricePerNight'', ''bedroomCount'',
           ''bathroomCount'', ''maxGuestCount'', ''rating'', ''hostId''] req_body) sa =
     (Inl e, sb)"
  shows "fst (properties_put prisma id' req_body w) = server_error"
proof -
  have "\<not> (\<not> truthy (req_body ''title'') \<and> \<not> truthy (req_body ''description'') \<and>
         \<not> truthy (req_body ''location'') \<and> \<not> truthy (req_body ''pricePerNight'') \<and>
         \<not> truthy (req_body ''bedroomCount'') \<and> \<not> truthy (req_body ''bathroomCount'') \<and>
         \<not> truthy (req_body ''maxGuestCount'') \<and> \<not> truthy (req_body ''rating'') \<and>
         \<not> truthy (req_body ''hostId''))"
    using assms(1) by auto
  then show ?thesis
    using assms(2,3) by (simp add: properties_put_run invoke_def)
qed

lemma users_put_update_fails:
  assumes "truthy (req_body ''username'') \<or> truthy (req_body ''email'') \<or>
     truthy (req_body ''password'')"
    and "req_user ''id'' = Some (JStr id')"
    and "user_findUnique prisma (ById (Some (JStr id'))) (snd w) = (Inr (Some u), sa)"
    and "user_update prisma id' (provided [''username'', ''email'', ''password''] req_body) sa =
     (Inl e, sb)"
  shows "fst (users_put prisma req_user id' req_body w) = server_error"
  using assms by (auto simp: users_put_run invoke_def strict_neq_def)

text \<open>
  A delete whose store call throws P2025 is answered 404: the catch blocks of the four
  delete handlers test the error's code.
\<close>

lemma delete_not_found:
  "review_delete prisma id' (snd w) = (Inl (Error (Some ''P2025'')), sa) \<Longrightarrow>
     reviews_delete prisma id' w =
       (Response 404 (Message ''Review not found''), (fst w @ [Delete Review id'], sa))"
  "booking_delete prisma id' (snd w) = (Inl (Error (Some ''P2025'')), sa) \<Longrightarrow>
     bookings_delete prisma id' w =
       (Response 404 (Message ''Booking not found''), (fst w @ [Delete Booking id'], sa))"
  "property_delete prisma id' (snd w) = (Inl (Error (Some ''P2025'')), sa) \<Longrightarrow>
     properties_delete prisma id' w =
       (Response 404 (Message ''Property not found''), (fst w @ [Delete Property id'], sa))"
  "req_user ''id'' = Some (JStr id') \<Longrightarrow>
   user_delete prisma id' (snd w) = (Inl (Error (Some ''P2025'')), sa) \<Longrightarrow>
     users_delete prisma req_user id' w =
       (Response 404 (Message ''User not found''), (fst w @ [Delete User id'], sa))"
  using reviews_delete_run [of prisma id' w "Inl (Error (Some ''P2025''))" sa]
    bookings_delete_run [of prisma id' w "Inl (Error (Some ''P2025''))" sa]
    properties_delete_run [of prisma id' w "Inl (Error (Some ''P2025''))" sa]
    users_delete_run [of req_user id' prisma w "Inl (Error (Some ''P2025''))" sa]
  by simp_all

lemma example_review_found:
  "find (\<lambda>x. review_id x = ''r1'') (reviews example_db) = Some example_review"
  "find (\<lambda>x. review_id x = ''r9'') (reviews example_db) = None"
  by (simp_all add: example_db_def example_review_def)

lemma vanishing_review_update:
  "review_update vanishing_prisma i data s =
     (Inl (Error (Some ''P2025'')), s\<lparr>reviews := filter (\<lambda>x. review_id x \<noteq> i) (reviews s)\<rparr>)"
  by (simp add: vanishing_prisma_def not_found_def)

lemma vanishing_review_findUnique:
  "review_findUnique vanishing_prisma = mem_review_findUnique"
  by (simp add: vanishing_prisma_def mem_prisma_def)

text \<open>
  Claim C3, at the input where the code departs from it. The example store holds the
  review "r1". PUT /reviews/r1 with the payload \<open>{rating: 5}\<close> looks the review up and
  finds it; the row is deleted by another request before the update is issued, so the
  update finds no row and the store throws P2025, the "row not found" failure; the handler
  answers 500 "Server error", not 404, after exactly these two calls. The delete handler of
  the same router maps the same failure to 404: DELETE /reviews/r9, for a review that is
  not in the store, is answered 404 "Review not found".
\<close>

theorem reviews_put_vanished_row:
  "review_findUnique vanishing_prisma (Some (JStr ''r1'')) example_db =
     (Inr (Some example_review), example_db) \<and>
   fst (review_update vanishing_prisma ''r1''
          (provided [''rating'', ''comment'', ''userId'', ''propertyId'']
             [''rating'' \<mapsto> JNum 5])
          example_db) =
     Inl (Error (Some ''P2025'')) \<and>
   reviews_put vanishing_prisma ''r1'' [''rating'' \<mapsto> JNum 5] ([], example_db) =
     (Response 500 (Message ''Server error''),
      ([FindUnique Review (ById (Some (JStr ''r1''))),
        Update Review ''r1''
          (provided [''rating'', ''comment'', ''userId'', ''propertyId'']
             [''rating'' \<mapsto> JNum 5])],
       example_db\<lparr>reviews := filter (\<lambda>x. review_id x \<noteq> ''r1'') (reviews example_db)\<rparr>)) \<and>
   fst (review_delete vanishing_prisma ''r9'' example_db) = Inl (Error (Some ''P2025'')) \<and>
   fst (reviews_delete vanishing_prisma ''r9'' ([], example_db)) =
     Response 404 (Message ''Review not found'')"
proof -
  have found: "review_findUnique vanishing_prisma (Some (JStr ''r1'')) example_db =
      (Inr (Some example_review), example_db)"
    by (simp add: vanishing_review_findUnique mem_review_findUnique_def find_unique_def
        example_review_found)
  have thrown: "fst (review_update vanishing_prisma ''r1''
          (provided [''rating'', ''comment'', ''userId'', ''propertyId'']
             [''rating'' \<mapsto> JNum 5])
          example_db) =
     Inl (Error (Some ''P2025''))"
    by (simp add: vanishing_review_update)
  have put: "reviews_put vanishing_prisma ''r1'' [''rating'' \<mapsto> JNum 5] ([], example_db) =
     (Response 500 (Message ''Server error''),
      ([FindUnique Review (ById (Some (JStr ''r1''))),
        Update Review ''r1''
          (provided [''rating'', ''comment'', ''userId'', ''propertyId'']
             [''rating'' \<mapsto> JNum 5])],
       example_db\<lparr>reviews := filter (\<lambda>x. review_id x \<noteq> ''r1'') (reviews example_db)\<rparr>))"
    using reviews_put_update_fails [where prisma = vanishing_prisma and id' = "''r1''"
        and w = "([], example_db)" and sa = example_db and r = example_review
        and req_body = "[''rating'' \<mapsto> JNum 5]" and e = "Error (Some ''P2025'')"
        and sb = "example_db\<lparr>reviews := filter (\<lambda>x. review_id x \<noteq> ''r1'') (reviews example_db)\<rparr>"]
      found
    by (simp add: vanishing_review_update)
  have absent: "review_delete vanishing_prisma ''r9'' example_db =
      (Inl (Error (Some ''P2025'')), example_db)"
    by (simp add: vanishing_prisma_def mem_prisma_def mem_review_delete_def
        example_review_found not_found_def)
  have deleted: "fst (reviews_delete vanishing_prisma ''r9'' ([], example_db)) =
     Response 404 (Message ''Review not found'')"
    using delete_not_found(1) [of vanishing_prisma "''r9''" "([], example_db)" example_db]
      absent
    by simp
  from found thrown put absent deleted show ?thesis by simp
qed

theorem reviews_put_vanished_row_witness:
  "status (fst (reviews_put vanishing_prisma ''r1'' [''rating'' \<mapsto> JNum 5] ([], example_db))) =
     500 \<and>
   status (fst (reviews_delete vanishing_prisma ''r9'' ([], example_db))) = 404"
  using reviews_put_vanished_row by simp

section \<open>Partial updates\<close>

lemma column_provided:
  "column conv (provided ks req_body k) old = Some v \<Longrightarrow> k \<in> set ks \<Longrightarrow>
   (if truthy (req_body k) then conv (req_body k) = Some v else v = old)"
  by (auto simp: column_def provided_def split: option.splits if_splits)

lemma review_set_provided:
  assumes "review_set (provided [''rating'', ''comment'', ''userId'', ''propertyId''] req_body)
             old = Some new"
  shows "review_id new = review_id old \<and>
     (if truthy (req_body ''rating'')
      then as_float (req_body ''rating'') = Some (review_rating new)
      else review_rating new = review_rating old) \<and>
     (if truthy (req_body ''comment'')
      then as_opt_string (req_body ''comment'') = Some (review_comment new)
      else review_comment new = review_comment old) \<and>
     (if truthy (req_body ''userId'')
      then as_string (req_body ''userId'') = Some (review_userId new)
      else review_userId new = review_userId old) \<and>
     (if truthy (req_body ''propertyId'')
      then as_string (req_body ''propertyId'') = Some (review_propertyId new)
      else review_propertyId new = review_propertyId old)"
proof -
  let ?data = "provided [''rating'', ''comment'', ''userId'', ''propertyId''] req_body"
  from assms obtain rating comment userId propertyId where
    c: "column as_float (?data ''rating'') (review_rating old) = Some rating"
       "column as_opt_string (?data ''comment'') (review_comment old) = Some comment"
       "column as_string (?data ''userId'') (review_userId old) = Some userId"
       "column as_string (?data ''propertyId'') (review_propertyId old) = Some propertyId"
    and new: "new = old\<lparr>review_rating := rating, review_comment := comment,
                review_userId := userId, review_propertyId := propertyId\<rparr>"
    by (auto simp: review_set_def bind_eq_Some_conv)
  show ?thesis
    using column_provided [OF c(1)] column_provided [OF c(2)] column_provided [OF c(3)]
      column_provided [OF c(4)]
    by (simp add: new)
qed

lemma user_set_provided:
  assumes "user_set (provided [''username'', ''email'', ''password''] req_body) old = Some new"
  shows "new = old\<lparr>user_username := user_username new, user_email := user_email new,
                    user_password := user_password new\<rparr> \<and>
     (if truthy (req_body ''username'')
      then as_string (req_body ''username'') = Some (user_username new)
      else user_username new = user_username old) \<and>
     (if truthy (req_body ''email'')
      then as_string (req_body ''email'') = Some (user_email new)
      else user_email new = user_email old) \<and>
     (if truthy (req_body ''password'')
      then as_string (req_body ''password'') = Some (user_password new)
      else user_password new = user_password old)"
proof -
  let ?data = "provided [''username'', ''email'', ''password''] req_body"
  from assms obtain username email password where
    c: "column as_string (?data ''username'') (user_username old) = Some username"
       "column as_string (?data ''email'') (user_email old) = Some email"
       "column as_string (?data ''password'') (user_password old) = Some password"
    and new: "new = old\<lparr>user_username := username, user_email := email,
                user_password := password\<rparr>"
    by (auto simp: user_set_def bind_eq_Some_conv)
  show ?thesis
    using column_provided [OF c(1)] column_provided [OF c(2)] column_provided [OF c(3)]
    by (simp add: new)
qed

lemma column_provided_date:
  "column as_date (provided_booking req_body k) old = Some v \<Longrightarrow>
   k \<in> {''startDate'', ''endDate''} \<Longrightarrow>
   (if truthy (req_body k) then v = req_body k else v = old)"
  by (auto simp: column_def provided_booking_def provided_def newDate_def
      split: option.splits if_splits)

lemma column_provided_booking:
  "column conv (provided_booking req_body k) old = Some v \<Longrightarrow>
   k \<in> {''userId'', ''propertyId''} \<Longrightarrow>
   (if truthy (req_body k) then conv (req_body k) = Some v else v = old)"
  by (auto simp: column_def provided_booking_def provided_def split: option.splits if_splits)

lemma booking_set_provided:
  assumes "booking_set (provided_booking req_body) old = Some new"
  shows "booking_id new = booking_id old \<and>
     (if truthy (req_body ''startDate'')
      then booking_startDate new = req_body ''startDate''
      else booking_startDate new = booking_startDate old) \<and>
     (if truthy (req_body ''endDate'')
      then booking_endDate new = req_body ''endDate''
      else booking_endDate new = booking_endDate old) \<and>
     (if truthy (req_body ''userId'')
      then as_string (req_body ''userId'') = Some (booking_userId new)
      else booking_userId new = booking_userId old) \<and>
     (if truthy (req_body ''propertyId'')
      then as_string (req_body ''propertyId'') = Some (booking_propertyId new)
      else booking_propertyId new = booking_propertyId old)"
proof -
  let ?data = "provided_booking req_body"
  from assms obtain startDate endDate userId propertyId where
    c: "column as_date (?data ''startDate'') (booking_startDate old) = Some startDate"
       "column as_date (?data ''endDate'') (booking_endDate old) = Some endDate"
       "column as_string (?data ''userId'') (booking_userId old) = Some userId"
       "column as_string (?data ''propertyId'') (booking_propertyId old) = Some propertyId"
    and new: "new = old\<lparr>booking_startDate := startDate, booking_endDate := endDate,
                booking_userId := userId, booking_propertyId := propertyId\<rparr>"
    by (auto simp: booking_set_def bind_eq_Some_conv)
  show ?thesis
    using column_provided_date [OF c(1)] column_provided_date [OF c(2)]
      column_provided_booking [OF c(3)] column_provided_booking [OF c(4)]
    by (simp add: new)
qed

lemma property_set_provided:
  assumes "property_set
             (provided
                [''title'', ''description'', ''location'', ''pricePerNight'', ''bedroomCount'',
                 ''bathroomCount'', ''maxGuestCount'', ''rating'', ''hostId''] req_body)
             old = Some new"
  shows "property_id new = property_id old \<and>
     (if truthy (req_body ''title'')
      then as_string (req_body ''title'') = Some (property_title new)
      else property_title new = property_title old) \<and>
     (if truthy (req_body ''description'')
      then as_string (req_body ''description'') = Some (property_description new)
      else property_description new = property_description old) \<and>
     (if truthy (req_body ''location'')
      then as_string (req_body ''location'') = Some (property_location new)
      else property_location new = property_location old) \<and>
     (if truthy (req_body ''pricePerNight'')
      then as_float (req_body ''pricePerNight'') = Some (property_pricePerNight new)
      else property_pricePerNight new = property_pricePerNight old) \<and>
     (if truthy (req_body ''bedroomCount'')
      then as_int (req_body ''bedroomCount'') = Some (property_bedroomCount new)
      else property_bedroomCount new = property_bedroomCount old) \<and>
     (if truthy (req_body ''bathroomCount'')
      then as_int (req_body ''bathroomCount'') = Some (property_bathroomCount new)
      else property_bathroomCount new = property_bathroomCount old) \<and>
     (if truthy (req_body ''maxGuestCount'')
      then as_int (req_body ''maxGuestCount'') = Some (property_maxGuestCount new)
      else property_maxGuestCount new = property_maxGuestCount old) \<and>
     (if truthy (req_body ''rating'')
      then as_float (req_body ''rating'') = Some (property_rating new)
      else property_rating new = property_rating old) \<and>
     (if truthy (req_body ''hostId'')
      then as_string (req_body ''hostId'') = Some (property_hostId new)
      else property_hostId new = property_hostId old)"
proof -
  let ?data = "provided
                [''title'', ''description'', ''location'', ''pricePerNight'', ''bedroomCount'',
                 ''bathroomCount'', ''maxGuestCount'', ''rating'', ''hostId''] req_body"
  from assms obtain title description location pricePerNight bedroomCount bathroomCount
      maxGuestCount rating hostId where
    c: "column as_string (?data ''title'') (property_title old) = Some title"
       "column as_string (?data ''description'') (property_description old) = Some description"
       "column as_string (?data ''location'') (property_location old) = Some location"
       "column as_float (?data ''pricePerNight'') (property_pricePerNight old) =
          Some pricePerNight"
       "column as_int (?data ''bedroomCount'') (property_bedroomCount old) = Some bedroomCount"
       "column as_int (?data ''bathroomCount'') (property_bathroomCount old) =
          Some bathroomCount"
       "column as_int (?data ''maxGuestCount'') (property_maxGuestCount old) =
          Some maxGuestCount"
       "column as_float (?data ''rating'') (property_rating old) = Some rating"
       "column as_string (?data ''hostId'') (property_hostId old) = Some hostId"
    and new: "new = old\<lparr>property_title := title, property_description := description,
                property_location := location, property_pricePerNight := pricePerNight,
                property_bedroomCount := bedroomCount, property_bathroomCount := bathroomCount,
                property_maxGuestCount := maxGuestCount, property_rating := rating,
                property_hostId := hostId\<rparr>"
    unfolding property_set_def bind_eq_Some_conv by blast
  show ?thesis
    using column_provided [OF c(1)] column_provided [OF c(2)] column_provided [OF c(3)]
      column_provided [OF c(4)] column_provided [OF c(5)] column_provided [OF c(6)]
      column_provided [OF c(7)] column_provided [OF c(8)] column_provided [OF c(9)]
    by (simp add: new)
qed

lemma mem_reviews_put_ok:
  assumes "reviews_put mem_prisma id' req_body (l, s) = (ra, (la, sa))" and "status ra = 200"
  shows "\<exists>old new.
     find (\<lambda>x. review_id x = id') (reviews s) = Some old \<and>
     review_set (provided [''rating'', ''comment'', ''userId'', ''propertyId''] req_body) old =
       Some new \<and>
     ra = Response 200 (Entity new) \<and>
     sa = s\<lparr>reviews := map (\<lambda>x. if review_id x = id' then new else x) (reviews s)\<rparr>"
  using assms
  by (auto simp: reviews_put_run invoke_def mem_prisma_def mem_review_findUnique_def
      find_unique_def mem_review_update_def split: if_splits option.splits)

lemma mem_bookings_put_ok:
  assumes "bookings_put mem_prisma id' req_body (l, s) = (ra, (la, sa))" and "status ra = 200"
  shows "\<exists>old new.
     find (\<lambda>x. booking_id x = id') (bookings s) = Some old \<and>
     booking_set (provided_booking req_body) old = Some new \<and>
     ra = Response 200 (Entity new) \<and>
     sa = s\<lparr>bookings := map (\<lambda>x. if booking_id x = id' then new else x) (bookings s)\<rparr>"
  using assms
  by (auto simp: bookings_put_run invoke_def mem_prisma_def mem_booking_findUnique_def
      find_unique_def mem_booking_update_def split: if_splits option.splits)

lemma mem_properties_put_ok:
  assumes "properties_put mem_prisma id' req_body (l, s) = (ra, (la, sa))"
    and "status ra = 200"
  shows "\<exists>old new.
     find (\<lambda>x. property_id x = id') (properties s) = Some old \<and>
     property_set
       (provided
          [''title'', ''description'', ''location'', ''pricePerNight'', ''bedroomCount'',
           ''bathroomCount'', ''maxGuestCount'', ''rating'', ''hostId''] req_body)
       old = Some new \<and>
     ra = Response 200 (Entity new) \<and>
     sa = s\<lparr>properties := map (\<lambda>x. if property_id x = id' then new else x) (properties s)\<rparr>"
proof (cases "\<not> truthy (req_body ''title'') \<and> \<not> truthy (req_body ''description'') \<and>
         \<not> truthy (req_body ''location'') \<and> \<not> truthy (req_body ''pricePerNight'') \<and>
         \<not> truthy (req_body ''bedroomCount'') \<and> \<not> truthy (req_body ''bathroomCount'') \<and>
         \<not> truthy (req_body ''maxGuestCount'') \<and> \<not> truthy (req_body ''rating'') \<and>
         \<not> truthy (req_body ''hostId'')")
  case True
  with assms show ?thesis by (auto simp: properties_put_run)
next
  case False
  with assms show ?thesis
    by (simp add: properties_put_run invoke_def mem_prisma_def mem_property_findUnique_def
        find_unique_def mem_property_update_def split: if_splits option.splits) auto
qed

lemma mem_users_put_ok:
  assumes "users_put mem_prisma req_user id' req_body (l, s) = (ra, (la, sa))"
    and "status ra = 200"
  shows "\<exists>old new.
     find (\<lambda>x. user_id x = id') (users s) = Some old \<and>
     user_set (provided [''username'', ''email'', ''password''] req_body) old = Some new \<and>
     ra = Response 200 (Entity (userWithoutPassword.truncate new)) \<and>
     sa = s\<lparr>users := map (\<lambda>x. if user_id x = id' then new else x) (users s)\<rparr>"
  using assms
  by (auto simp: users_put_run invoke_def mem_prisma_def mem_user_findUnique_def
      find_unique_def mem_user_update_def split: if_splits option.splits)

lemma reviews_put_calls:
  "fst (snd (reviews_put prisma id' req_body w)) \<in>
     {fst w,
      fst w @ [FindUnique Review (ById (Some (JStr id')))],
      fst w @ [FindUnique Review (ById (Some (JStr id'))),
               Update Review id'
                 (provided [''rating'', ''comment'', ''userId'', ''propertyId''] req_body)]}"
  by (simp add: reviews_put_run invoke_def split: prod.splits sum.splits option.splits)

lemma bookings_put_calls:
  "fst (snd (bookings_put prisma id' req_body w)) \<in>
     {fst w,
      fst w @ [FindUnique Booking (ById (Some (JStr id')))],
      fst w @ [FindUnique Booking (ById (Some (JStr id'))),
               Update Booking id' (provided_booking req_body)]}"
  by (simp add: bookings_put_run invoke_def split: prod.splits sum.splits option.splits)

lemma properties_put_calls:
  "fst (snd (properties_put prisma id' req_body w)) \<in>
     {fst w,
      fst w @ [FindUnique Property (ById (Some (JStr id')))],
      fst w @ [FindUnique Property (ById (Some (JStr id'))),
               Update Property id'
                 (provided
                    [''title'', ''description'', ''location'', ''pricePerNight'',
                     ''bedroomCount'', ''bathroomCount'', ''maxGuestCount'', ''rating'',
                     ''hostId''] req_body)]}"
  by (simp add: properties_put_run invoke_def split: prod.splits sum.splits option.splits)

lemma users_put_calls:
  "fst (snd (users_put prisma req_user id' req_body w)) \<in>
     {fst w,
      fst w @ [FindUnique User (ById (Some (JStr id')))],
      fst w @ [FindUnique User (ById (Some (JStr id'))),
               Update User id' (provided [''username'', ''email'', ''password''] req_body)]}"
  by (simp add: users_put_run invoke_def split: prod.splits sum.splits option.splits)

lemma mem_reviews_put_frame:
  assumes "reviews_put mem_prisma id' req_body (l, s) = (rr, (la, sa))"
    and "status rr = 200"
  shows "\<exists>old new.
     find (\<lambda>x. review_id x = id') (reviews s) = Some old \<and>
     rr = Response 200 (Entity new) \<and>
     sa = s\<lparr>reviews := map (\<lambda>x. if review_id x = id' then new else x) (reviews s)\<rparr> \<and>
     review_id new = review_id old \<and>
     (if truthy (req_body ''rating'')
      then as_float (req_body ''rating'') = Some (review_rating new)
      else review_rating new = review_rating old) \<and>
     (if truthy (req_body ''comment'')
      then as_opt_string (req_body ''comment'') = Some (review_comment new)
      else review_comment new = review_comment old) \<and>
     (if truthy (req_body ''userId'')
      then as_string (req_body ''userId'') = Some (review_userId new)
      else review_userId new = review_userId old) \<and>
     (if truthy (req_body ''propertyId'')
      then as_string (req_body ''propertyId'') = Some (review_propertyId new)
      else review_propertyId new = review_propertyId old)"
proof -
  from mem_reviews_put_ok [OF assms] obtain old new where
    "find (\<lambda>x. review_id x = id') (reviews s) = Some old"
    "rr = Response 200 (Entity new)"
    "sa = s\<lparr>reviews := map (\<lambda>x. if review_id x = id' then new else x) (reviews s)\<rparr>"
    and set: "review_set (provided [''rating'', ''comment'', ''userId'', ''propertyId''] req_body) old = Some new"
    by blast
  with review_set_provided [OF set] show ?thesis by blast
qed

lemma mem_bookings_put_frame:
  assumes "bookings_put mem_prisma id' req_body (l, s) = (rb, (la, sa))"
    and "status rb = 200"
  shows "\<exists>old new.
     find (\<lambda>x. booking_id x = id') (bookings s) = Some old \<and>
     rb = Response 200 (Entity new) \<and>
     sa = s\<lparr>bookings := map (\<lambda>x. if booking_id x = id' then new else x) (bookings s)\<rparr> \<and>
     booking_id new = booking_id old \<and>
     (if truthy (req_body ''startDate'')
      then booking_startDate new = req_body ''startDate''
      else booking_startDate new = booking_startDate old) \<and>
     (if truthy (req_body ''endDate'')
      then booking_endDate new = req_body ''endDate''
      else booking_endDate new = booking_endDate old) \<and>
     (if truthy (req_body ''userId'')
      then as_string (req_body ''userId'') = Some (booking_userId new)
      else booking_userId new = booking_userId old) \<and>
     (if truthy (req_body ''propertyId'')
      then as_string (req_body ''propertyId'') = Some (booking_propertyId new)
      else booking_propertyId new = booking_propertyId old)"
proof -
  from mem_bookings_put_ok [OF assms] obtain old new where
    "find (\<lambda>x. booking_id x = id') (bookings s) = Some old"
    "rb = Response 200 (Entity new)"
    "sa = s\<lparr>bookings := map (\<lambda>x. if booking_id x = id' then new else x) (bookings s)\<rparr>"
    and set: "booking_set (provided_booking req_body) old = Some new"
    by blast
  with booking_set_provided [OF set] show ?thesis by blast
qed

lemma mem_properties_put_frame:
  assumes "properties_put mem_prisma id' req_body (l, s) = (rp, (la, sa))"
    and "status rp = 200"
  shows "\<exists>old new.
     find (\<lambda>x. property_id x = id') (properties s) = Some old \<and>
     rp = Response 200 (Entity new) \<and>
     sa = s\<lparr>properties := map (\<lambda>x. if property_id x = id' then new else x) (properties s)\<rparr> \<and>
     property_id new = property_id old \<and>
     (if truthy (req_body ''title'')
      then as_string (req_body ''title'') = Some (property_title new)
      else property_title new = property_title old) \<and>
     (if truthy (req_body ''description'')
      then as_string (req_body ''description'') = Some (property_description new)
      else property_description new = property_description old) \<and>
     (if truthy (req_body ''location'')
      then as_string (req_body ''location'') = Some (property_location new)
      else property_location new = property_location old) \<and>
     (if truthy (req_body ''pricePerNight'')
      then as_float (req_body ''pricePerNight'') = Some (property_pricePerNight new)
      else property_pricePerNight new = property_pricePerNight old) \<and>
     (if truthy (req_body ''bedroomCount'')
      then as_int (req_body ''bedroomCount'') = Some (property_bedroomCount new)
      else property_bedroomCount new = property_bedroomCount old) \<and>
     (if truthy (req_body ''bathroomCount'')
      then as_int (req_body ''bathroomCount'') = Some (property_bathroomCount new)
      else property_bathroomCount new = property_bathroomCount old) \<and>
     (if truthy (req_body ''maxGuestCount'')
      then as_int (req_body ''maxGuestCount'') = Some (property_maxGuestCount new)
      else property_maxGuestCount new = property_maxGuestCount old) \<and>
     (if truthy (req_body ''rating'')
      then as_float (req_body ''rating'') = Some (property_rating new)
      else property_rating new = property_rating old) \<and>
     (if truthy (req_body ''hostId'')
      then as_string (req_body ''hostId'') = Some (property_hostId new)
      else property_hostId new = property_hostId old)"
proof -
  from mem_properties_put_ok [OF assms] obtain old new where
    "find (\<lambda>x. property_id x = id') (properties s) = Some old"
    "rp = Response 200 (Entity new)"
    "sa = s\<lparr>properties := map (\<lambda>x. if property_id x = id' then new else x) (properties s)\<rparr>"
    and set: "property_set
       (provided
          [''title'', ''description'', ''location'', ''pricePerNight'', ''bedroomCount'',
           ''bathroomCount'', ''maxGuestCount'', ''rating'', ''hostId''] req_body)
       old = Some new"
    by blast
  with property_set_provided [OF set] show ?thesis by blast
qed

lemma mem_users_put_frame:
  assumes "users_put mem_prisma req_user id' req_body (l, s) = (ru, (la, sa))"
    and "status ru = 200"
  shows "\<exists>old new.
     find (\<lambda>x. user_id x = id') (users s) = Some old \<and>
     ru = Response 200 (Entity (userWithoutPassword.truncate new)) \<and>
     sa = s\<lparr>users := map (\<lambda>x. if user_id x = id' then new else x) (users s)\<rparr> \<and>
     new = old\<lparr>user_username := user_username new, user_email := user_email new,
                    user_password := user_password new\<rparr> \<and>
     (if truthy (req_body ''username'')
      then as_string (req_body ''username'') = Some (user_username new)
      else user_username new = user_username old) \<and>
     (if truthy (req_body ''email'')
      then as_string (req_body ''email'') = Some (user_email new)
      else user_email new = user_email old) \<and>
     (if truthy (req_body ''password'')
      then as_string (req_body ''password'') = Some (user_password new)
      else user_password new = user_password old)"
proof -
  from mem_users_put_ok [OF assms] obtain old new where
    "find (\<lambda>x. user_id x = id') (users s) = Some old"
    "ru = Response 200 (Entity (userWithoutPassword.truncate new))"
    "sa = s\<lparr>users := map (\<lambda>x. if user_id x = id' then new else x) (users s)\<rparr>"
    and set: "user_set (provided [''username'', ''email'', ''password''] req_body) old = Some new"
    by blast
  with user_set_provided [OF set] show ?thesis by blast
qed

text \<open>
  Claim C7. For PUT on a review, a booking, a property and a user: a payload in which no
  updatable field is truthy is answered 400 and the world is returned as it was, so no
  lookup was issued; in every run the calls made are none, or the lookup of the row, or
  that lookup followed by one update of that row whose data holds exactly the updatable
  fields that are truthy in the payload (a booking's dates as Date objects); and on the
  reference store, when the answer is 200, the store afterwards is the store before with
  the row of that id replaced by a row that has the same id, the payload's value in each
  updatable field that is truthy in the payload, and the old value in every other field,
  all other rows and tables being as they were.
\<close>

theorem partial_update_frame:
  "(\<not> truthy (req_body ''rating'') \<and> \<not> truthy (req_body ''comment'') \<and>
    \<not> truthy (req_body ''userId'') \<and> \<not> truthy (req_body ''propertyId'') \<longrightarrow>
      reviews_put prisma id' req_body w =
        (Response 400
           (Message ''At least one field (rating, comment, userId, propertyId) is required''),
         w)) \<and>
   fst (snd (reviews_put prisma id' req_body w)) \<in>
     {fst w,
      fst w @ [FindUnique Review (ById (Some (JStr id')))],
      fst w @ [FindUnique Review (ById (Some (JStr id'))),
               Update Review id'
                 (provided [''rating'', ''comment'', ''userId'', ''propertyId''] req_body)]} \<and>
   (reviews_put mem_prisma id' req_body (l, s) = (rr, (la, sa)) \<and> status rr = 200 \<longrightarrow>
      (\<exists>old new.
         find (\<lambda>x. review_id x = id') (reviews s) = Some old \<and>
         rr = Response 200 (Entity new) \<and>
         sa = s\<lparr>reviews := map (\<lambda>x. if review_id x = id' then new else x) (reviews s)\<rparr> \<and>
         review_id new = review_id old \<and>
         (if truthy (req_body ''rating'')
          then as_float (req_body ''rating'') = Some (review_rating new)
          else review_rating new = review_rating old) \<and>
         (if truthy (req_body ''comment'')
          then as_opt_string (req_body ''comment'') = Some (review_comment new)
          else review_comment new = review_comment old) \<and>
         (if truthy (req_body ''userId'')
          then as_string (req_body ''userId'') = Some (review_userId new)
          else review_userId new = review_userId old) \<and>
         (if truthy (req_body ''propertyId'')
          then as_string (req_body ''propertyId'') = Some (review_propertyId new)
          else review_propertyId new = review_propertyId old))) \<and>
   (\<not> truthy (req_body ''startDate'') \<and> \<not> truthy (req_body ''endDate'') \<and>
    \<not> truthy (req_body ''userId'') \<and> \<not> truthy (req_body ''propertyId'') \<longrightarrow>
      bookings_put prisma id' req_body w =
        (Response 400
           (Message
              ''At least one field (startDate, endDate, userId, propertyId) is required''),
         w)) \<and>
   fst (snd (bookings_put prisma id' req_body w)) \<in>
     {fst w,
      fst w @ [FindUnique Booking (ById (Some (JStr id')))],
      fst w @ [FindUnique Booking (ById (Some (JStr id'))),
               Update Booking id' (provided_booking req_body)]} \<and>
   (bookings_put mem_prisma id' req_body (l, s) = (rb, (la, sa)) \<and> status rb = 200 \<longrightarrow>
      (\<exists>old new.
         find (\<lambda>x. booking_id x = id') (bookings s) = Some old \<and>
         rb = Response 200 (Entity new) \<and>
         sa = s\<lparr>bookings := map (\<lambda>x. if booking_id x = id' then new else x) (bookings s)\<rparr> \<and>
         booking_id new = booking_id old \<and>
         (if truthy (req_body ''startDate'')
          then booking_startDate new = req_body ''startDate''
          else booking_startDate new = booking_startDate old) \<and>
         (if truthy (req_body ''endDate'')
          then booking_endDate new = req_body ''endDate''
          else booking_endDate new = booking_endDate old) \<and>
         (if truthy (req_body ''userId'')
          then as_string (req_body ''userId'') = Some (booking_userId new)
          else booking_userId new = booking_userId old) \<and>
         (if truthy (req_body ''propertyId'')
          then as_string (req_body ''propertyId'') = Some (booking_propertyId new)
          else booking_propertyId new = booking_propertyId old))) \<and>
   (\<not> truthy (req_body ''title'') \<and> \<not> truthy (req_body ''description'') \<and>
    \<not> truthy (req_body ''location'') \<and> \<not> truthy (req_body ''pricePerNight'') \<and>
    \<not> truthy (req_body ''bedroomCount'') \<and> \<not> truthy (req_body ''bathroomCount'') \<and>
    \<not> truthy (req_body ''maxGuestCount'') \<and> \<not> truthy (req_body ''rating'') \<and>
    \<not> truthy (req_body ''hostId'') \<longrightarrow>
      properties_put prisma id' req_body w =
        (Response 400
           (Message (''At least one field (title, description, location, pricePerNight, '' @
              ''bedroomCount, bathroomCount, maxGuestCount, rating, or hostId) is required'')),
         w)) \<and>
   fst (snd (properties_put prisma id' req_body w)) \<in>
     {fst w,
      fst w @ [FindUnique Property (ById (Some (JStr id')))],
      fst w @ [FindUnique Property (ById (Some (JStr id'))),
               Update Property id'
                 (provided
                    [''title'', ''description'', ''location'', ''pricePerNight'',
                     ''bedroomCount'', ''bathroomCount'', ''maxGuestCount'', ''rating'',
                     ''hostId''] req_body)]} \<and>
   (properties_put mem_prisma id' req_body (l, s) = (rp, (la, sa)) \<and> status rp = 200 \<longrightarrow>
      (\<exists>old new.
         find (\<lambda>x. property_id x = id') (properties s) = Some old \<and>
         rp = Response 200 (Entity new) \<and>
         sa = s\<lparr>properties :=
                  map (\<lambda>x. if property_id x = id' then new else x) (properties s)\<rparr> \<and>
         property_id new = property_id old \<and>
         (if truthy (req_body ''title'')
          then as_string (req_body ''title'') = Some (property_title new)
          else property_title new = property_title old) \<and>
         (if truthy (req_body ''description'')
          then as_string (req_body ''description'') = Some (property_description new)
          else property_description new = property_description old) \<and>
         (if truthy (req_body ''location'')
          then as_string (req_body ''location'') = Some (property_location new)
          else property_location new = property_location old) \<and>
         (if truthy (req_body ''pricePerNight'')
          then as_float (req_body ''pricePerNight'') = Some (property_pricePerNight new)
          else property_pricePerNight new = property_pricePerNight old) \<and>
         (if truthy (req_body ''bedroomCount'')
          then as_int (req_body ''bedroomCount'') = Some (property_bedroomCount new)
          else property_bedroomCount new = property_bedroomCount old) \<and>
         (if truthy (req_body ''bathroomCount'')
          then as_int (req_body ''bathroomCount'') = Some (property_bathroomCount new)
          else property_bathroomCount new = property_bathroomCount old) \<and>
         (if truthy (req_body ''maxGuestCount'')
          then as_int (req_body ''maxGuestCount'') = Some (property_maxGuestCount new)
          else property_maxGuestCount new = property_maxGuestCount old) \<and>
         (if truthy (req_body ''rating'')
          then as_float (req_body ''rating'') = Some (property_rating new)
          else property_rating new = property_rating old) \<and>
         (if truthy (req_body ''hostId'')
          then as_string (req_body ''hostId'') = Some (property_hostId new)
          else property_hostId new = property_hostId old))) \<and>
   (\<not> truthy (req_body ''username'') \<and> \<not> truthy (req_body ''email'') \<and>
    \<not> truthy (req_body ''password'') \<longrightarrow>
      users_put prisma req_user id' req_body w =
        (Response 400
           (Message ''At least one field is required (username, email, or password)''), w)) \<and>
   fst (snd (users_put prisma req_user id' req_body w)) \<in>
     {fst w,
      fst w @ [FindUnique User (ById (Some (JStr id')))],
      fst w @ [FindUnique User (ById (Some (JStr id'))),
               Update User id' (provided [''username'', ''email'', ''password''] req_body)]} \<and>
   (users_put mem_prisma req_user id' req_body (l, s) = (ru, (la, sa)) \<and> status ru = 200 \<longrightarrow>
      (\<exists>old new.
         find (\<lambda>x. user_id x = id') (users s) = Some old \<and>
         ru = Response 200 (Entity (userWithoutPassword.truncate new)) \<and>
         sa = s\<lparr>users := map (\<lambda>x. if user_id x = id' then new else x) (users s)\<rparr> \<and>
         new = old\<lparr>user_username := user_username new, user_email := user_email new,
                        user_password := user_password new\<rparr> \<and>
         (if truthy (req_body ''username'')
          then as_string (req_body ''username'') = Some (user_username new)
          else user_username new = user_username old) \<and>
         (if truthy (req_body ''email'')
          then as_string (req_body ''email'') = Some (user_email new)
          else user_email new = user_email old) \<and>
         (if truthy (req_body ''password'')
          then as_string (req_body ''password'') = Some (user_password new)
          else user_password new = user_password old)))"
  apply (intro conjI)
  subgoal by (simp add: reviews_put_run)
  subgoal by (rule reviews_put_calls)
  subgoal by (intro impI) (elim conjE, rule mem_reviews_put_frame; assumption)
  subgoal by (simp add: bookings_put_run)
  subgoal by (rule bookings_put_calls)
  subgoal by (intro impI) (elim conjE, rule mem_bookings_put_frame; assumption)
  subgoal by (simp add: properties_put_run)
  subgoal by (rule properties_put_calls)
  subgoal by (intro impI) (elim conjE, rule mem_properties_put_frame; assumption)
  subgoal by (simp add: users_put_run)
  subgoal by (rule users_put_calls)
  subgoal by (intro impI) (elim conjE, rule mem_users_put_frame; assumption)
  done

lemma example_reviews_put:
  "reviews_put mem_prisma ''r1'' [''rating'' \<mapsto> JNum 5, ''comment'' \<mapsto> JStr []]
       ([], example_db) =
     (Response 200 (Entity (example_review\<lparr>review_rating := 5\<rparr>)),
      ([FindUnique Review (ById (Some (JStr ''r1''))),
        Update Review ''r1''
          (provided [''rating'', ''comment'', ''userId'', ''propertyId'']
             [''rating'' \<mapsto> JNum 5, ''comment'' \<mapsto> JStr []])],
       example_db\<lparr>reviews := [example_review\<lparr>review_rating := 5\<rparr>]\<rparr>))"
  by (simp add: reviews_put_run invoke_def mem_prisma_def mem_review_findUnique_def
      find_unique_def mem_review_update_def review_set_def column_def provided_def has_row_def
      example_db_def example_review_def jdoe_def asmith_def example_property_def)

lemma example_bookings_put:
  "bookings_put mem_prisma ''b1'' [''endDate'' \<mapsto> JStr ''2024-06-10''] ([], example_db) =
     (Response 200
        (Entity (example_booking\<lparr>booking_endDate := Some (JStr ''2024-06-10'')\<rparr>)),
      ([FindUnique Booking (ById (Some (JStr ''b1''))),
        Update Booking ''b1'' (provided_booking [''endDate'' \<mapsto> JStr ''2024-06-10''])],
       example_db
         \<lparr>bookings := [example_booking\<lparr>booking_endDate := Some (JStr ''2024-06-10'')\<rparr>]\<rparr>))"
  by (simp add: bookings_put_run invoke_def mem_prisma_def mem_booking_findUnique_def
      find_unique_def mem_booking_update_def booking_set_def column_def provided_booking_def
      provided_def newDate_def has_row_def example_db_def example_booking_def jdoe_def
      asmith_def example_property_def)

lemma example_properties_put:
  "properties_put mem_prisma ''p1''
       [''pricePerNight'' \<mapsto> JNum 300, ''bedroomCount'' \<mapsto> JNum 0] ([], example_db) =
     (Response 200 (Entity (example_property\<lparr>property_pricePerNight := 300\<rparr>)),
      ([FindUnique Property (ById (Some (JStr ''p1''))),
        Update Property ''p1''
          (provided
             [''title'', ''description'', ''location'', ''pricePerNight'', ''bedroomCount'',
              ''bathroomCount'', ''maxGuestCount'', ''rating'', ''hostId'']
             [''pricePerNight'' \<mapsto> JNum 300, ''bedroomCount'' \<mapsto> JNum 0])],
       example_db\<lparr>properties := [example_property\<lparr>property_pricePerNight := 300\<rparr>]\<rparr>))"
  by (simp add: properties_put_run invoke_def mem_prisma_def mem_property_findUnique_def
      find_unique_def mem_property_update_def property_set_def column_def provided_def
      has_row_def example_db_def example_property_def example_host_def)

lemma example_users_put:
  "users_put mem_prisma [''id'' \<mapsto> JStr ''u1''] ''u1''
       [''email'' \<mapsto> JStr ''john@example.com'', ''name'' \<mapsto> JStr ''Johnny'']
       ([], example_db) =
     (Response 200
        (Entity (userWithoutPassword.truncate (jdoe\<lparr>user_email := ''john@example.com''\<rparr>))),
      ([FindUnique User (ById (Some (JStr ''u1''))),
        Update User ''u1''
          (provided [''username'', ''email'', ''password'']
             [''email'' \<mapsto> JStr ''john@example.com'', ''name'' \<mapsto> JStr ''Johnny''])],
       example_db\<lparr>users := [jdoe\<lparr>user_email := ''john@example.com''\<rparr>, asmith]\<rparr>))"
  by (simp add: users_put_run strict_neq_def invoke_def mem_prisma_def
      mem_user_findUnique_def find_unique_def mem_user_update_def user_set_def column_def
      provided_def example_db_def jdoe_def asmith_def)

text \<open>
  On the example store: a rating of 0 and an empty comment are both taken as not provided
  (400); with a rating of 5 and an empty comment the rating alone is written; a booking's
  new end date, a property's new price (its bedroom count of 0 taken as not provided) and
  a user's new email (the payload's name is not an updatable field) are written, and
  everything else stays as it was.
\<close>

theorem partial_update_frame_witness:
  "reviews_put mem_prisma ''r1'' [''rating'' \<mapsto> JNum 0, ''comment'' \<mapsto> JStr []]
       ([], example_db) =
     (Response 400
        (Message ''At least one field (rating, comment, userId, propertyId) is required''),
      ([], example_db)) \<and>
   reviews_put mem_prisma ''r1'' [''rating'' \<mapsto> JNum 5, ''comment'' \<mapsto> JStr []]
       ([], example_db) =
     (Response 200 (Entity (example_review\<lparr>review_rating := 5\<rparr>)),
      ([FindUnique Review (ById (Some (JStr ''r1''))),
        Update Review ''r1''
          (provided [''rating'', ''comment'', ''userId'', ''propertyId'']
             [''rating'' \<mapsto> JNum 5, ''comment'' \<mapsto> JStr []])],
       example_db\<lparr>reviews := [example_review\<lparr>review_rating := 5\<rparr>]\<rparr>)) \<and>
   review_comment (example_review\<lparr>review_rating := 5\<rparr>) = Some ''Great stay'' \<and>
   bookings_put mem_prisma ''b1'' [''endDate'' \<mapsto> JStr ''2024-06-10''] ([], example_db) =
     (Response 200
        (Entity (example_booking\<lparr>booking_endDate := Some (JStr ''2024-06-10'')\<rparr>)),
      ([FindUnique Booking (ById (Some (JStr ''b1''))),
        Update Booking ''b1'' (provided_booking [''endDate'' \<mapsto> JStr ''2024-06-10''])],
       example_db
         \<lparr>bookings := [example_booking\<lparr>booking_endDate := Some (JStr ''2024-06-10'')\<rparr>]\<rparr>)) \<and>
   properties_put mem_prisma ''p1''
       [''pricePerNight'' \<mapsto> JNum 300, ''bedroomCount'' \<mapsto> JNum 0] ([], example_db) =
     (Response 200 (Entity (example_property\<lparr>property_pricePerNight := 300\<rparr>)),
      ([FindUnique Property (ById (Some (JStr ''p1''))),
        Update Property ''p1''
          (provided
             [''title'', ''description'', ''location'', ''pricePerNight'', ''bedroomCount'',
              ''bathroomCount'', ''maxGuestCount'', ''rating'', ''hostId'']
             [''pricePerNight'' \<mapsto> JNum 300, ''bedroomCount'' \<mapsto> JNum 0])],
       example_db\<lparr>properties := [example_property\<lparr>property_pricePerNight := 300\<rparr>]\<rparr>)) \<and>
   users_put mem_prisma [''id'' \<mapsto> JStr ''u1''] ''u1''
       [''email'' \<mapsto> JStr ''john@example.com'', ''name'' \<mapsto> JStr ''Johnny'']
       ([], example_db) =
     (Response 200
        (Entity (userWithoutPassword.truncate (jdoe\<lparr>user_email := ''john@example.com''\<rparr>))),
      ([FindUnique User (ById (Some (JStr ''u1''))),
        Update User ''u1''
          (provided [''username'', ''email'', ''password'']
             [''email'' \<mapsto> JStr ''john@example.com'', ''name'' \<mapsto> JStr ''Johnny''])],
       example_db\<lparr>users := [jdoe\<lparr>user_email := ''john@example.com''\<rparr>, asmith]\<rparr>))"
proof -
  have none: "reviews_put mem_prisma ''r1'' [''rating'' \<mapsto> JNum 0, ''comment'' \<mapsto> JStr []]
       ([], example_db) =
     (Response 400
        (Message ''At least one field (rating, comment, userId, propertyId) is required''),
      ([], example_db))"
    using partial_update_frame [where prisma = mem_prisma and id' = "''r1''"
      and w = "([], example_db)"
      and req_body = "[''rating'' \<mapsto> JNum 0, ''comment'' \<mapsto> JStr []]"]
    by simp
  have kept: "review_comment (example_review\<lparr>review_rating := 5\<rparr>) = Some ''Great stay''"
    by (simp add: example_review_def)
  from none kept example_reviews_put example_bookings_put example_properties_put
    example_users_put
  show ?thesis by (intro conjI)
qed

end
